theory Spec2Isabelle
  imports Complex_Main
begin

section \<open>JavaScript values\<close>

text \<open>
  The handler of \<^verbatim>\<open>POST /swap\<close> in \<^verbatim>\<open>src/server.js\<close> works on parsed JSON: the request
  body, the payloads of the pricing and transaction-build services, and the objects it
  throws and catches. A value is modelled as the data a JavaScript program can read
  from it. A number is a double: its exact value, a rational, when it is finite, or one
  of the three non-finite doubles; where the handler computes a number, the rounding of
  the result to the nearest double is written out (\<open>to_double\<close> below). An object is
  the list of its own properties, each key once; a property that is not there reads as
  \<open>Undefined\<close>.
\<close>

datatype jsnum = NaN | NegInf | Fin rat | PosInf

datatype jsval =
    Undefined
  | Null
  | Boolean bool
  | Num jsnum
  | Str string
  | Arr "jsval list"
  | Obj "(string \<times> jsval) list"

text \<open>\<^verbatim>\<open>!!v\<close>: the falsy values are undefined, null, false, 0, NaN and the empty string.\<close>

fun num_truthy :: "jsnum \<Rightarrow> bool" where
  "num_truthy NaN = False"
| "num_truthy (Fin q) = (q \<noteq> 0)"
| "num_truthy NegInf = True"
| "num_truthy PosInf = True"

fun truthy :: "jsval \<Rightarrow> bool" where
  "truthy Undefined = False"
| "truthy Null = False"
| "truthy (Boolean b) = b"
| "truthy (Num n) = num_truthy n"
| "truthy (Str s) = (s \<noteq> [])"
| "truthy (Arr xs) = True"
| "truthy (Obj kvs) = True"

text \<open>\<^verbatim>\<open>a || b\<close> on values (both operands here are free of effects).\<close>

definition js_or :: "jsval \<Rightarrow> jsval \<Rightarrow> jsval" where
  "js_or a b = (if truthy a then a else b)"

text \<open>
  \<^verbatim>\<open>v?.k\<close>, and \<^verbatim>\<open>v.k\<close> or \<^verbatim>\<open>v[k]\<close> where \<open>v\<close> is known to be an object. None of the keys
  the handler reads (\<^verbatim>\<open>priceRoute\<close>, \<^verbatim>\<open>destAmount\<close>, \<^verbatim>\<open>tokenTransferProxy\<close>, \<^verbatim>\<open>to\<close>, \<^verbatim>\<open>data\<close>,
  \<^verbatim>\<open>value\<close>, \<^verbatim>\<open>gas\<close>, \<^verbatim>\<open>gasPrice\<close>, \<^verbatim>\<open>response\<close>, \<^verbatim>\<open>status\<close>, \<^verbatim>\<open>message\<close>, \<^verbatim>\<open>error\<close> and the
  request's fields) is a property of a string, number, boolean or array, so on those
  the read gives undefined.
\<close>

fun get :: "jsval \<Rightarrow> string \<Rightarrow> jsval" where
  "get (Obj kvs) k = (case map_of kvs k of Some v \<Rightarrow> v | None \<Rightarrow> Undefined)"
| "get v k = Undefined"

text \<open>\<^verbatim>\<open>typeof v === "object"\<close> and \<^verbatim>\<open>Array.isArray(v)\<close>.\<close>

fun typeof_object :: "jsval \<Rightarrow> bool" where
  "typeof_object Null = True"
| "typeof_object (Arr xs) = True"
| "typeof_object (Obj kvs) = True"
| "typeof_object v = False"

fun isArray :: "jsval \<Rightarrow> bool" where
  "isArray (Arr xs) = True"
| "isArray v = False"

text \<open>\<^verbatim>\<open>n < c\<close> and \<^verbatim>\<open>n > c\<close> against a finite constant: both are false on NaN.\<close>

fun num_less :: "jsnum \<Rightarrow> rat \<Rightarrow> bool" where
  "num_less NaN c = False"
| "num_less NegInf c = True"
| "num_less (Fin q) c = (q < c)"
| "num_less PosInf c = False"

fun num_greater :: "jsnum \<Rightarrow> rat \<Rightarrow> bool" where
  "num_greater NaN c = False"
| "num_greater NegInf c = False"
| "num_greater (Fin q) c = (c < q)"
| "num_greater PosInf c = True"

text \<open>
  The double nearest to a real number, as IEEE 754 arithmetic and the reading of a
  decimal literal round (to nearest, ties to the even mantissa). The doubles are the
  multiples \<open>m * 2\<^sup>e\<close> with \<open>\<bar>m\<bar> < 2\<^sup>5\<^sup>3\<close> and \<open>- 1074 \<le> e \<le> 971\<close>. For a real \<open>x\<close>, \<open>ulp_exp x\<close>
  is the exponent of the grid of doubles around \<open>x\<close>: the least \<open>e\<close> from \<open>- 1074\<close> on
  with \<open>\<bar>x\<bar> < 2\<^sup>e\<^sup>+\<^sup>5\<^sup>3\<close>, and 971 from \<open>2\<^sup>1\<^sup>0\<^sup>2\<^sup>4\<close> on. A result of magnitude \<open>2\<^sup>1\<^sup>0\<^sup>2\<^sup>4\<close> or more
  is an infinity.
\<close>

definition pow2 :: "int \<Rightarrow> rat" where
  "pow2 e = (if 0 \<le> e then 2 ^ nat e else 1 / 2 ^ nat (- e))"

fun ulp_search :: "rat \<Rightarrow> int \<Rightarrow> nat \<Rightarrow> int" where
  "ulp_search x e 0 = e"
| "ulp_search x e (Suc n) = (if x < pow2 (e + 53) then e else ulp_search x (e + 1) n)"

definition ulp_exp :: "rat \<Rightarrow> int" where
  "ulp_exp x = ulp_search \<bar>x\<bar> (- 1074) 2045"

definition round_half_even :: "rat \<Rightarrow> int" where
  "round_half_even y =
     (let f = \<lfloor>y\<rfloor>; d = y - of_int f
      in if d < 1 / 2 then f
         else if 1 / 2 < d then f + 1
         else if even f then f else f + 1)"

definition to_double :: "rat \<Rightarrow> jsnum" where
  "to_double x =
     (let u = pow2 (ulp_exp x); d = of_int (round_half_even (x / u)) * u
      in if pow2 1024 \<le> d then PosInf
         else if d \<le> - pow2 1024 then NegInf
         else Fin d)"

text \<open>\<^verbatim>\<open>n / 100\<close>: the double nearest to the quotient.\<close>

fun div100 :: "jsnum \<Rightarrow> jsnum" where
  "div100 (Fin q) = to_double (q / 100)"
| "div100 n = n"

subsection \<open>Strings\<close>

text \<open>\<^verbatim>\<open>xs.join(sep)\<close> on an array of strings.\<close>

fun join :: "string \<Rightarrow> string list \<Rightarrow> string" where
  "join sep [] = []"
| "join sep [s] = s"
| "join sep (s # t # ss) = s @ sep @ join sep (t # ss)"

text \<open>
  \<^verbatim>\<open>s.toLowerCase()\<close> on the letters A to Z; the handler applies it to addresses, which
  are ASCII.
\<close>

definition lower_char :: "char \<Rightarrow> char" where
  "lower_char c =
     (case map_of (zip ''ABCDEFGHIJKLMNOPQRSTUVWXYZ'' ''abcdefghijklmnopqrstuvwxyz'') c of
        Some d \<Rightarrow> d
      | None \<Rightarrow> c)"

definition toLowerCase :: "string \<Rightarrow> string" where
  "toLowerCase s = map lower_char s"

text \<open>\<^verbatim>\<open>/^\d+$/.test(s)\<close>: one or more characters, each of 0 to 9.\<close>

definition is_digit :: "char \<Rightarrow> bool" where
  "is_digit c = (c \<in> set ''0123456789'')"

definition all_digits :: "string \<Rightarrow> bool" where
  "all_digits s = (s \<noteq> [] \<and> list_all is_digit s)"

text \<open>The number a string of decimal digits denotes, as \<^verbatim>\<open>BigInt(s)\<close> reads it.\<close>

definition digit_val :: "char \<Rightarrow> nat" where
  "digit_val c = (case map_of (zip ''0123456789'' [0, 1, 2, 3, 4, 5, 6, 7, 8, 9]) c of
                    Some d \<Rightarrow> d
                  | None \<Rightarrow> 0)"

definition decval :: "string \<Rightarrow> nat" where
  "decval s = foldl (\<lambda>acc c. 10 * acc + digit_val c) 0 s"

text \<open>The decimal digits of a natural number, as \<^verbatim>\<open>n.toString()\<close> prints a bigint.\<close>

function dec :: "nat \<Rightarrow> string" where
  "dec n = (if n < 10 then [''0123456789'' ! n]
            else dec (n div 10) @ [''0123456789'' ! (n mod 10)])"
  by pat_completeness auto
termination
  by (relation "measure id") auto

declare dec.simps [simp del]

text \<open>
  \<^verbatim>\<open>x.toFixed(4)\<close>: with \<open>n\<close> the integer for which \<open>n / 10\<^sup>4 - x\<close> is closest to zero (the
  larger one on a tie), \<open>x\<close> being the exact value of the double, the digits of \<open>n\<close> with
  a point before the last four. The
  handler reaches it with \<open>0.01 \<le> x \<le> 20\<close> only; magnitudes from \<open>10\<^sup>2\<^sup>1\<close> on, which
  JavaScript prints in exponent notation, are not modelled.
\<close>

definition round4 :: "rat \<Rightarrow> nat" where
  "round4 x = nat \<lfloor>x * 10000 + 1 / 2\<rfloor>"

definition pad4 :: "string \<Rightarrow> string" where
  "pad4 s = (if length s = 1 then ''000'' @ s
             else if length s = 2 then ''00'' @ s
             else if length s = 3 then ''0'' @ s
             else s)"

definition fixed4 :: "rat \<Rightarrow> string" where
  "fixed4 x = dec (round4 x div 10000) @ ''.'' @ pad4 (dec (round4 x mod 10000))"

fun toFixed4 :: "jsnum \<Rightarrow> string" where
  "toFixed4 NaN = ''NaN''"
| "toFixed4 NegInf = ''-Infinity''"
| "toFixed4 PosInf = ''Infinity''"
| "toFixed4 (Fin x) = (if x < 0 then ''-'' @ fixed4 (- x) else fixed4 x)"

text \<open>
  \<^verbatim>\<open>Number(x.toFixed(4))\<close>: the double nearest to the decimal that the string above
  denotes.
\<close>

fun Number_toFixed4 :: "jsnum \<Rightarrow> jsnum" where
  "Number_toFixed4 (Fin x) =
     to_double (if x < 0 then - (of_nat (round4 (- x)) / 10000)
                else of_nat (round4 x) / 10000)"
| "Number_toFixed4 n = n"


section \<open>The outside world\<close>

text \<open>
  A thrown value is the value the \<^verbatim>\<open>catch\<close> clause receives: an \<^verbatim>\<open>Error\<close> is the object of
  the properties the handler reads from it (\<^verbatim>\<open>message\<close>, \<^verbatim>\<open>status\<close>, \<^verbatim>\<open>response\<close>). A call
  that can throw returns \<open>Inl\<close> of the thrown value or \<open>Inr\<close> of its result.
\<close>

record tx_response =
  hash :: jsval

record receipt =
  blockNumber :: jsval
  status :: jsval

record tx_request =
  tx_to :: jsval
  tx_data :: jsval
  tx_value :: int
  tx_gasLimit :: "int option"

text \<open>
  The calls that leave the process, in the order the handler issues them. An
  \<open>Approve\<close> and a \<open>SendTransaction\<close> submit a transaction to the chain; the others read
  or wait.
\<close>

datatype call =
    PricesGet jsval
  | AllowanceRead string string jsval
  | Approve string jsval nat
  | ApproveWait tx_response
  | TransactionsPost jsval
  | SendTransaction tx_request
  | TxWait tx_response

fun is_write :: "call \<Rightarrow> bool" where
  "is_write (Approve token spender amount) = True"
| "is_write (SendTransaction t) = True"
| "is_write c = False"

text \<open>
  Everything the handler does not compute itself: the configuration read at startup,
  the conversions of the JavaScript runtime and of the \<^verbatim>\<open>ethers\<close> library that are not
  written out here, and the answers of the pricing service, the build service and the
  chain. Within one request each service is asked at most once, so a world whose
  answers depend on what happened before is, for that request, a world of this type.
  \<^item> \<open>signer\<close> is the address of the wallet made from \<^verbatim>\<open>PRIVATE_KEY\<close>, \<open>None\<close> when no
    key (or no \<^verbatim>\<open>RPC_URL\<close>) is configured; \<^verbatim>\<open>signer.getAddress()\<close> returns it.
  \<^item> \<open>getAddress\<close> is \<^verbatim>\<open>ethers.getAddress\<close>: the checksummed address, \<open>None\<close> where it
    throws.
  \<^item> \<open>ToString_rt\<close>, \<open>ToNumber_rt\<close> and \<open>ToBigInt_rt\<close> are \<^verbatim>\<open>String(v)\<close>, \<^verbatim>\<open>Number(v)\<close>
    and \<^verbatim>\<open>BigInt(v)\<close> on the values whose conversion is not written out below.
  \<^item> \<open>axios_get_prices\<close> and \<open>axios_post_transactions\<close> take the query parameters and
    the body, and return \<^verbatim>\<open>resp.data\<close> or throw (axios throws on every status outside
    2xx).
  \<^item> \<open>allowance\<close> and \<open>approve\<close> take the token, then the arguments of the contract call
    (\<^verbatim>\<open>c.allowance(owner, spender)\<close>, \<^verbatim>\<open>c.approve(spender, amount)\<close>); \<open>sendTransaction\<close> is
    \<^verbatim>\<open>signer.sendTransaction\<close>.
  \<^item> \<open>wait_approve\<close> and \<open>wait_swap\<close> are \<^verbatim>\<open>tx.wait()\<close> on the approval and on the swap
    transaction: the receipt it resolves to, or what it throws. The handler takes any
    receipt. The library (\<^verbatim>\<open>ethers\<close> version 6, the version whose API the source uses)
    resolves to the receipt of a transaction that was mined with a status other than
    0, and throws the error \<open>CALL_EXCEPTION\<close> below for a transaction that was mined with
    status 0, that is, reverted.
\<close>

record env =
  CHAIN_ID :: jsnum
  PARASWAP_PARTNER :: "string option"
  signer :: "string option"
  getAddress :: "jsval \<Rightarrow> string option"
  ToString_rt :: "jsval \<Rightarrow> jsval + string"
  ToNumber_rt :: "jsval \<Rightarrow> jsval + jsnum"
  ToBigInt_rt :: "jsval \<Rightarrow> jsval + int"
  axios_get_prices :: "jsval \<Rightarrow> jsval + jsval"
  allowance :: "string \<Rightarrow> string \<Rightarrow> jsval \<Rightarrow> jsval + nat"
  approve :: "string \<Rightarrow> jsval \<Rightarrow> nat \<Rightarrow> jsval + tx_response"
  wait_approve :: "tx_response \<Rightarrow> jsval + receipt"
  axios_post_transactions :: "jsval \<Rightarrow> jsval + jsval"
  sendTransaction :: "tx_request \<Rightarrow> jsval + tx_response"
  wait_swap :: "tx_response \<Rightarrow> jsval + receipt"

text \<open>
  The error that \<^verbatim>\<open>tx.wait()\<close> throws for a transaction mined with status 0, as the
  \<^verbatim>\<open>catch\<close> clause can read it: an \<^verbatim>\<open>Error\<close> with the code \<^verbatim>\<open>CALL_EXCEPTION\<close>, the receipt,
  and a message that starts with \<^verbatim>\<open>transaction execution reverted\<close> and goes on with
  details of the transaction (\<open>info\<close>). It has no \<^verbatim>\<open>status\<close> and no \<^verbatim>\<open>response\<close> property.
\<close>

definition CALL_EXCEPTION :: "string \<Rightarrow> receipt \<Rightarrow> jsval" where
  "CALL_EXCEPTION info rc =
     Obj [(''code'', Str ''CALL_EXCEPTION''),
          (''shortMessage'', Str ''transaction execution reverted''),
          (''message'', Str (''transaction execution reverted ('' @ info @ '')'')),
          (''receipt'', Obj [(''blockNumber'', blockNumber rc), (''status'', status rc)])]"

subsection \<open>Conversions\<close>

text \<open>\<^verbatim>\<open>String(v)\<close>, also the conversion inside a template literal.\<close>

definition js_String :: "env \<Rightarrow> jsval \<Rightarrow> jsval + string" where
  "js_String e v =
     (case v of
        Str s \<Rightarrow> Inr s
      | Undefined \<Rightarrow> Inr ''undefined''
      | Null \<Rightarrow> Inr ''null''
      | Boolean b \<Rightarrow> Inr (if b then ''true'' else ''false'')
      | _ \<Rightarrow> ToString_rt e v)"

text \<open>\<^verbatim>\<open>Number(v)\<close>.\<close>

definition js_Number :: "env \<Rightarrow> jsval \<Rightarrow> jsval + jsnum" where
  "js_Number e v =
     (case v of
        Num n \<Rightarrow> Inr n
      | Undefined \<Rightarrow> Inr NaN
      | Null \<Rightarrow> Inr (Fin 0)
      | Boolean b \<Rightarrow> Inr (Fin (if b then 1 else 0))
      | _ \<Rightarrow> ToNumber_rt e v)"

text \<open>\<^verbatim>\<open>BigInt(v)\<close>: written out on strings of decimal digits.\<close>

definition js_BigInt :: "env \<Rightarrow> jsval \<Rightarrow> jsval + int" where
  "js_BigInt e v =
     (case v of
        Str s \<Rightarrow> if all_digits s then Inr (int (decval s)) else ToBigInt_rt e v
      | _ \<Rightarrow> ToBigInt_rt e v)"

text \<open>
  \<^verbatim>\<open>xs.join(sep)\<close> on an array of values: undefined and null elements give the empty
  string, every other element is converted as \<^verbatim>\<open>String\<close> does, from the left.
\<close>

fun elem_strings :: "env \<Rightarrow> jsval list \<Rightarrow> jsval + string list" where
  "elem_strings e [] = Inr []"
| "elem_strings e (x # xs) =
     (case (if x = Undefined \<or> x = Null then Inr [] else js_String e x) of
        Inl err \<Rightarrow> Inl err
      | Inr s \<Rightarrow> (case elem_strings e xs of Inl err \<Rightarrow> Inl err | Inr ss \<Rightarrow> Inr (s # ss)))"

definition js_join :: "env \<Rightarrow> string \<Rightarrow> jsval list \<Rightarrow> jsval + string" where
  "js_join e sep xs =
     (case elem_strings e xs of Inl err \<Rightarrow> Inl err | Inr ss \<Rightarrow> Inr (join sep ss))"

text \<open>\<^verbatim>\<open>ethers.MaxUint256\<close>.\<close>

definition MaxUint256 :: nat where
  "MaxUint256 = 2 ^ 256 - 1"


section \<open>The handler of POST /swap\<close>

text \<open>
  A trace entry \<open>(tag, obj)\<close> stands for the line \<^verbatim>\<open>`${tag} | ${JSON.stringify(obj)}`\<close> that
  \<^verbatim>\<open>push\<close> of \<^verbatim>\<open>mkLogBag\<close> appends to \<^verbatim>\<open>logs\<close>. A response is the status given to
  \<^verbatim>\<open>res.status\<close> (200 without it) and the object given to \<^verbatim>\<open>res.json\<close>: its properties other
  than \<^verbatim>\<open>logs\<close> in order, and the trace under \<^verbatim>\<open>logs\<close>, \<open>None\<close> when the object has no such
  property.
\<close>

type_synonym entry = "string \<times> jsval"

record response =
  http_status :: jsval
  json :: "(string \<times> jsval) list"
  logs :: "entry list option"

datatype outcome = Returned response | Thrown jsval

subsection \<open>Messages\<close>

text \<open>The accented letters of the source's messages, as their UTF-8 bytes.\<close>

abbreviation (input) a_acute :: string where "a_acute \<equiv> [CHR 0xC3, CHR 0xA1]"
abbreviation (input) a_tilde :: string where "a_tilde \<equiv> [CHR 0xC3, CHR 0xA3]"
abbreviation (input) c_cedilla :: string where "c_cedilla \<equiv> [CHR 0xC3, CHR 0xA7]"
abbreviation (input) e_acute :: string where "e_acute \<equiv> [CHR 0xC3, CHR 0xA9]"
abbreviation (input) o_acute :: string where "o_acute \<equiv> [CHR 0xC3, CHR 0xB3]"

definition msg_body :: string where
  "msg_body = ''Body inv'' @ a_acute @
     ''lido. Envie JSON com wallet, tokenFrom, tokenTo, amountWei e slippageBps.''"

definition msg_missing :: "string list \<Rightarrow> string" where
  "msg_missing missing =
     ''Campos obrigat'' @ o_acute @ ''rios ausentes: '' @ join '', '' missing"

definition msg_address :: "string \<Rightarrow> string \<Rightarrow> string" where
  "msg_address name a =
     ''Endere'' @ c_cedilla @ ''o inv'' @ a_acute @ ''lido em '' @ name @ '': '' @ a"

definition msg_amount :: string where
  "msg_amount = ''amountWei inv'' @ a_acute @ ''lido (use string num'' @ e_acute @ ''rica).''"

definition msg_slippage :: string where
  "msg_slippage = ''slippageBps inv'' @ a_acute @ ''lido (1..2000).''"

definition msg_no_key :: string where
  "msg_no_key = ''PRIVATE_KEY n'' @ a_tilde @
     ''o configurada no servidor. Use unsignedOnly=true ou configure PRIVATE_KEY.''"

definition msg_mismatch :: "string \<Rightarrow> string \<Rightarrow> string" where
  "msg_mismatch w signerAddr =
     ''wallet ('' @ w @ '') n'' @ a_tilde @ ''o bate com o signer do servidor ('' @
     signerAddr @ '').''"

definition msg_no_route :: string where
  "msg_no_route = ''ParaSwap n'' @ a_tilde @
     ''o retornou destAmount/tokenTransferProxy. Sem rota/sem liquidez.''"

definition msg_incomplete :: string where
  "msg_incomplete = ''ParaSwap n'' @ a_tilde @ ''o retornou tx completa.''"

subsection \<open>Helpers (lines 116 to 154)\<close>

text \<open>\<^verbatim>\<open>badRequest(message)\<close>: an \<^verbatim>\<open>Error\<close> with that message and \<^verbatim>\<open>status = 400\<close>.\<close>

definition badRequest :: "string \<Rightarrow> jsval" where
  "badRequest message = Obj [(''message'', Str message), (''status'', Num (Fin 400))]"

text \<open>\<^verbatim>\<open>assertAddr(a, name)\<close>.\<close>

definition assertAddr :: "env \<Rightarrow> jsval \<Rightarrow> string \<Rightarrow> jsval + string" where
  "assertAddr e a name =
     (case getAddress e a of
        Some addr \<Rightarrow> Inr addr
      | None \<Rightarrow>
          (case js_String e a of
             Inl err \<Rightarrow> Inl err
           | Inr s \<Rightarrow> Inl (badRequest (msg_address name s))))"

text \<open>
  \<^verbatim>\<open>ensureAllowance({ token, owner, spender, neededWei, log, useSigner })\<close>. \<open>logs0\<close> is the
  trace that \<^verbatim>\<open>log\<close> appends to; the result is what the function returns (\<^verbatim>\<open>approved\<close>) or
  throws, the trace afterwards, and the calls it made.
\<close>

definition ensureAllowance ::
  "env \<Rightarrow> string \<Rightarrow> string \<Rightarrow> jsval \<Rightarrow> jsval \<Rightarrow> entry list \<Rightarrow> (jsval + bool) \<times> entry list \<times> call list"
where
  "ensureAllowance e token owner spender neededWei logs0 =
     (let calls1 = [AllowanceRead token owner spender] in
      case allowance e token owner spender of
        Inl err \<Rightarrow> (Inl err, logs0, calls1)
      | Inr a \<Rightarrow>
          let logs1 = logs0 @ [(''ALLOWANCE'',
                Obj [(''spender'', spender), (''allowance'', Str (dec a)),
                     (''neededWei'', neededWei)])]
          in
          (case js_BigInt e neededWei of
             Inl err \<Rightarrow> (Inl err, logs1, calls1)
           | Inr needed \<Rightarrow>
               if needed \<le> int a then (Inr False, logs1, calls1)
               else
                 let logs2 = logs1 @ [(''APPROVING'',
                       Obj [(''spender'', spender), (''amount'', Str ''MaxUint256'')])];
                     calls2 = calls1 @ [Approve token spender MaxUint256]
                 in
                 (case approve e token spender MaxUint256 of
                    Inl err \<Rightarrow> (Inl err, logs2, calls2)
                  | Inr tx \<Rightarrow>
                      let logs3 = logs2 @ [(''APPROVE_SENT'', Obj [(''hash'', hash tx)])];
                          calls3 = calls2 @ [ApproveWait tx]
                      in
                      (case wait_approve e tx of
                         Inl err \<Rightarrow> (Inl err, logs3, calls3)
                       | Inr rc \<Rightarrow>
                           (Inr True,
                            logs3 @ [(''APPROVE_CONFIRMED'', Obj [(''block'', blockNumber rc)])],
                            calls3)))))"

subsection \<open>Reading the request (lines 163 to 181)\<close>

record request =
  wallet :: string
  tokenFrom :: string
  tokenTo :: string
  amountWei :: string
  slippageBps :: jsnum
  excludeDexs :: "jsval list"
  unsignedOnly :: bool

definition requiredFields :: "string list" where
  "requiredFields = [''wallet'', ''tokenFrom'', ''tokenTo'', ''amountWei'', ''slippageBps'']"

definition is_missing :: "jsval \<Rightarrow> bool" where
  "is_missing v = (v = Undefined \<or> v = Null \<or> v = Str [])"

definition read_request :: "env \<Rightarrow> jsval \<Rightarrow> jsval + request" where
  "read_request e body =
     (if \<not> truthy body \<or> \<not> typeof_object body \<or> isArray body then Inl (badRequest msg_body)
      else
        let missing = filter (\<lambda>k. is_missing (get body k)) requiredFields in
        if missing \<noteq> [] then Inl (badRequest (msg_missing missing))
        else
          case assertAddr e (get body ''wallet'') ''wallet'' of
            Inl err \<Rightarrow> Inl err
          | Inr w \<Rightarrow>
          case assertAddr e (get body ''tokenFrom'') ''tokenFrom'' of
            Inl err \<Rightarrow> Inl err
          | Inr tf \<Rightarrow>
          case assertAddr e (get body ''tokenTo'') ''tokenTo'' of
            Inl err \<Rightarrow> Inl err
          | Inr tt \<Rightarrow>
          case js_String e (js_or (get body ''amountWei'') (Str [])) of
            Inl err \<Rightarrow> Inl err
          | Inr amt \<Rightarrow>
          case js_Number e (js_or (get body ''slippageBps'') (Num (Fin 0))) of
            Inl err \<Rightarrow> Inl err
          | Inr bps \<Rightarrow>
              Inr \<lparr>wallet = w, tokenFrom = tf, tokenTo = tt, amountWei = amt,
                   slippageBps = bps,
                   excludeDexs = (case get body ''excludeDexs'' of Arr xs \<Rightarrow> xs | _ \<Rightarrow> []),
                   unsignedOnly = truthy (get body ''unsignedOnly'')\<rparr>)"

definition wallet_entry :: "request \<Rightarrow> entry" where
  "wallet_entry r =
     (''WALLET'',
      Obj [(''wallet'', Str (wallet r)), (''tokenFrom'', Str (tokenFrom r)),
           (''tokenTo'', Str (tokenTo r)), (''amountWei'', Str (amountWei r)),
           (''slippageBps'', Num (slippageBps r)), (''excludeDexs'', Arr (excludeDexs r)),
           (''unsignedOnly'', Boolean (unsignedOnly r))])"

subsection \<open>The checks before the first call (lines 183 to 207)\<close>

definition amount_invalid :: "string \<Rightarrow> bool" where
  "amount_invalid amt = (amt = [] \<or> \<not> all_digits amt)"

definition slippage_invalid :: "jsnum \<Rightarrow> bool" where
  "slippage_invalid bps = (\<not> num_truthy bps \<or> num_less bps 1 \<or> num_greater bps 2000)"

text \<open>The message of the signer check, \<open>None\<close> when the request passes it.\<close>

definition signer_check :: "env \<Rightarrow> request \<Rightarrow> string option" where
  "signer_check e r =
     (if \<not> unsignedOnly r then
        (case signer e of
           None \<Rightarrow> Some msg_no_key
         | Some signerAddr \<Rightarrow>
             if toLowerCase signerAddr \<noteq> toLowerCase (wallet r)
             then Some (msg_mismatch (wallet r) signerAddr)
             else None)
      else None)"

text \<open>\<^verbatim>\<open>res.status(400).json({ ok: false, error, logs })\<close>.\<close>

definition rejected :: "string \<Rightarrow> entry list \<Rightarrow> response" where
  "rejected message logs0 =
     \<lparr>http_status = Num (Fin 400),
      json = [(''ok'', Boolean False), (''error'', Str message)],
      logs = Some logs0\<rparr>"

subsection \<open>Sending the transaction (lines 301 to 322)\<close>

text \<open>The response of lines 315 to 322.\<close>

definition confirmed :: "tx_response \<Rightarrow> receipt \<Rightarrow> string \<Rightarrow> entry list \<Rightarrow> response" where
  "confirmed tx rc destAmount logs0 =
     \<lparr>http_status = Num (Fin 200),
      json = [(''ok'', Boolean True), (''hash'', hash tx), (''block'', blockNumber rc),
              (''status'', status rc), (''destAmount'', Str destAmount)],
      logs = Some logs0\<rparr>"

definition send_stage ::
  "env \<Rightarrow> jsval \<Rightarrow> string \<Rightarrow> entry list \<Rightarrow> call list \<Rightarrow> outcome \<times> entry list \<times> call list"
where
  "send_stage e txData destAmount logs0 calls0 =
     (case js_BigInt e (js_or (get txData ''value'') (Str ''0'')) of
        Inl err \<Rightarrow> (Thrown err, logs0, calls0)
      | Inr v \<Rightarrow>
      case (if truthy (get txData ''gas'')
            then (case js_BigInt e (get txData ''gas'') of
                    Inl err \<Rightarrow> Inl err
                  | Inr g \<Rightarrow> Inr (Some g))
            else Inr None) of
        Inl err \<Rightarrow> (Thrown err, logs0, calls0)
      | Inr gasLimit \<Rightarrow>
          let txreq = \<lparr>tx_to = get txData ''to'', tx_data = get txData ''data'',
                       tx_value = v, tx_gasLimit = gasLimit\<rparr>;
              calls1 = calls0 @ [SendTransaction txreq]
          in
          (case sendTransaction e txreq of
             Inl err \<Rightarrow> (Thrown err, logs0, calls1)
           | Inr tx \<Rightarrow>
               let logs1 = logs0 @ [(''SENT'', Obj [(''hash'', hash tx)])];
                   calls2 = calls1 @ [TxWait tx]
               in
               (case wait_swap e tx of
                  Inl err \<Rightarrow> (Thrown err, logs1, calls2)
                | Inr rc \<Rightarrow>
                    let logs2 = logs1 @ [(''CONFIRMED'',
                          Obj [(''block'', blockNumber rc), (''status'', status rc)])]
                    in
                    (Returned (confirmed tx rc destAmount logs2), logs2, calls2))))"

subsection \<open>Building the transaction (lines 261 to 299)\<close>

definition txBody :: "env \<Rightarrow> request \<Rightarrow> jsval \<Rightarrow> jsval" where
  "txBody e r priceRoute =
     Obj [(''priceRoute'', js_or (get priceRoute ''priceRoute'') priceRoute),
          (''srcToken'', Str (tokenFrom r)),
          (''destToken'', Str (tokenTo r)),
          (''srcAmount'', Str (amountWei r)),
          (''userAddress'', Str (wallet r)),
          (''slippage'', Num (Number_toFixed4 (div100 (slippageBps r)))),
          (''partner'',
             js_or (case PARASWAP_PARTNER e of None \<Rightarrow> Undefined | Some s \<Rightarrow> Str s)
               Undefined)]"

definition build_stage ::
  "env \<Rightarrow> request \<Rightarrow> jsval \<Rightarrow> string \<Rightarrow> entry list \<Rightarrow> call list \<Rightarrow> outcome \<times> entry list \<times> call list"
where
  "build_stage e r priceRoute destAmount logs0 calls0 =
     (let body = txBody e r priceRoute;
          logs1 = logs0 @ [(''PARASWAP_TX_BODY'',
                Obj [(''userAddress'', Str (wallet r)), (''slippage'', get body ''slippage'')])];
          calls1 = calls0 @ [TransactionsPost body]
      in
      case axios_post_transactions e body of
        Inl err \<Rightarrow> (Thrown err, logs1, calls1)
      | Inr txData \<Rightarrow>
          if \<not> truthy (get txData ''to'') \<or> \<not> truthy (get txData ''data'') then
            (Returned
               \<lparr>http_status = Num (Fin 400),
                json = [(''ok'', Boolean False), (''error'', Str msg_incomplete),
                          (''raw'', txData)],
                logs = Some logs1\<rparr>,
             logs1, calls1)
          else
            (case js_String e (js_or (get txData ''value'') (Str ''0'')) of
               Inl err \<Rightarrow> (Thrown err, logs1, calls1)
             | Inr v \<Rightarrow>
                 let logs2 = logs1 @ [(''TX_OK'',
                       Obj [(''to'', get txData ''to''), (''value'', Str v),
                            (''gasPrice'', get txData ''gasPrice''),
                            (''gas'', get txData ''gas'')])]
                 in
                 if unsignedOnly r then
                   (Returned
                      \<lparr>http_status = Num (Fin 200),
                       json = [(''ok'', Boolean True), (''mode'', Str ''unsignedOnly''),
                                 (''txData'', txData), (''destAmount'', Str destAmount)],
                       logs = Some logs2\<rparr>,
                    logs2, calls1)
                 else send_stage e txData destAmount logs2 calls1))"

subsection \<open>The allowance (lines 249 to 259)\<close>

definition allowance_stage ::
  "env \<Rightarrow> request \<Rightarrow> jsval \<Rightarrow> string \<Rightarrow> jsval \<Rightarrow> entry list \<Rightarrow> call list \<Rightarrow> outcome \<times> entry list \<times> call list"
where
  "allowance_stage e r priceRoute destAmount tokenTransferProxy logs0 calls0 =
     (if \<not> unsignedOnly r then
        (case ensureAllowance e (tokenFrom r) (wallet r) tokenTransferProxy
                (Str (amountWei r)) logs0 of
           (Inl err, logs1, cs) \<Rightarrow> (Thrown err, logs1, calls0 @ cs)
         | (Inr approved, logs1, cs) \<Rightarrow>
             build_stage e r priceRoute destAmount logs1 (calls0 @ cs))
      else build_stage e r priceRoute destAmount logs0 calls0)"

subsection \<open>The quote (lines 209 to 247)\<close>

definition pricesParams :: "env \<Rightarrow> request \<Rightarrow> string \<Rightarrow> jsval" where
  "pricesParams e r csv =
     Obj [(''srcToken'', Str (tokenFrom r)),
          (''destToken'', Str (tokenTo r)),
          (''amount'', Str (amountWei r)),
          (''side'', Str ''SELL''),
          (''network'', Num (CHAIN_ID e)),
          (''userAddress'', Str (wallet r)),
          (''excludeDEXS'', js_or (Str csv) Undefined),
          (''slippage'', Str (toFixed4 (div100 (slippageBps r))))]"

text \<open>Lines 232 to 236: the two fields the handler reads from the quote.\<close>

definition quoted_destAmount :: "jsval \<Rightarrow> jsval" where
  "quoted_destAmount priceRoute =
     js_or (get (get priceRoute ''priceRoute'') ''destAmount'') (get priceRoute ''destAmount'')"

definition quoted_tokenTransferProxy :: "jsval \<Rightarrow> jsval" where
  "quoted_tokenTransferProxy priceRoute =
     js_or (get (get priceRoute ''priceRoute'') ''tokenTransferProxy'')
       (get priceRoute ''tokenTransferProxy'')"

definition quote_stage ::
  "env \<Rightarrow> request \<Rightarrow> entry list \<Rightarrow> outcome \<times> entry list \<times> call list"
where
  "quote_stage e r logs0 =
     (case js_join e '','' (excludeDexs r) of
        Inl err \<Rightarrow> (Thrown err, logs0, [])
      | Inr csv \<Rightarrow>
          let params = pricesParams e r csv;
              logs1 = logs0 @ [(''PARASWAP_PRICES'', params)];
              calls1 = [PricesGet params]
          in
          (case axios_get_prices e params of
             Inl err \<Rightarrow> (Thrown err, logs1, calls1)
           | Inr priceRoute \<Rightarrow>
               let destAmount = quoted_destAmount priceRoute;
                   tokenTransferProxy = quoted_tokenTransferProxy priceRoute
               in
               if \<not> truthy destAmount \<or> \<not> truthy tokenTransferProxy then
                 (Returned
                    \<lparr>http_status = Num (Fin 400),
                     json = [(''ok'', Boolean False), (''error'', Str msg_no_route),
                               (''raw'', priceRoute)],
                     logs = Some logs1\<rparr>,
                  logs1, calls1)
               else
                 (case js_String e destAmount of
                    Inl err \<Rightarrow> (Thrown err, logs1, calls1)
                  | Inr d \<Rightarrow>
                      allowance_stage e r priceRoute d tokenTransferProxy
                        (logs1 @ [(''PRICE_OK'',
                           Obj [(''destAmount'', Str d),
                                (''tokenTransferProxy'', tokenTransferProxy)])])
                        calls1)))"

subsection \<open>The handler (lines 159 to 333)\<close>

text \<open>The \<^verbatim>\<open>try\<close> block: what it returns or throws, the trace, and the calls made.\<close>

definition swap_try :: "env \<Rightarrow> jsval \<Rightarrow> outcome \<times> entry list \<times> call list" where
  "swap_try e body =
     (case read_request e body of
        Inl err \<Rightarrow> (Thrown err, [], [])
      | Inr r \<Rightarrow>
          let logs1 = [wallet_entry r] in
          if amount_invalid (amountWei r) then (Returned (rejected msg_amount logs1), logs1, [])
          else if slippage_invalid (slippageBps r) then
            (Returned (rejected msg_slippage logs1), logs1, [])
          else
            (case signer_check e r of
               Some message \<Rightarrow> (Returned (rejected message logs1), logs1, [])
             | None \<Rightarrow> quote_stage e r logs1))"

text \<open>The \<^verbatim>\<open>catch\<close> clause (lines 324 to 332).\<close>

definition catch_handler :: "jsval \<Rightarrow> response" where
  "catch_handler err =
     (let msg = js_or (get (get (get err ''response'') ''data'') ''error'')
                  (js_or (get err ''message'') (Str ''Erro''));
          st = js_or (get (get err ''response'') ''status'')
                 (js_or (get err ''status'') (Num (Fin 500)))
      in
      \<lparr>http_status = st,
       json = [(''ok'', Boolean False), (''error'', msg),
                 (''details'', js_or (get (get err ''response'') ''data'') Null)],
       logs = None\<rparr>)"

text \<open>
  One request: the response sent, the trace \<^verbatim>\<open>logs\<close> as it stands when the response is
  sent, and the calls made.
\<close>

definition swap :: "env \<Rightarrow> jsval \<Rightarrow> response \<times> entry list \<times> call list" where
  "swap e body =
     (case swap_try e body of
        (Returned res, logs1, calls1) \<Rightarrow> (res, logs1, calls1)
      | (Thrown err, logs1, calls1) \<Rightarrow> (catch_handler err, logs1, calls1))"

subsection \<open>Reading a request body and a status\<close>

text \<open>\<^verbatim>\<open>Object.keys(v)\<close>, to state which properties a request body has.\<close>

fun keys :: "jsval \<Rightarrow> string list" where
  "keys (Obj kvs) = map fst kvs"
| "keys v = []"

text \<open>Whether a response status is a number of the 400 class.\<close>

fun is_4xx :: "jsval \<Rightarrow> bool" where
  "is_4xx (Num (Fin q)) = (400 \<le> q \<and> q < 500)"
| "is_4xx v = False"

section \<open>Example requests and worlds\<close>

text \<open>
  The request of the source's API description (lines 89 to 95) and a world around it, for
  the concrete runs below. The five addresses are in checksummed form, so
  \<^verbatim>\<open>ethers.getAddress\<close> returns each as it is; \<open>example_env\<close> gives \<open>getAddress\<close> as the
  identity on strings. In \<open>example_env\<close> the allowance is 0, every service answers, and
  the swap transaction's receipt has status 1. The runs below convert strings of digits
  and strings only, so they never consult \<open>ToString_rt\<close>, \<open>ToNumber_rt\<close> or \<open>ToBigInt_rt\<close>.
\<close>

definition W :: string where
  "W = ''0x4682beffFE9d3BCDa67cC6a8aDBb437Dcc46219F''"

definition USDT :: string where
  "USDT = ''0xFd086bC7CD5C481DCC9C85ebE478A1C0b69FCbb9''"

definition WBTC :: string where
  "WBTC = ''0x2f2a2543B76A4166549F7aaB2e75Bef0aefC5B0f''"

definition proxy :: string where
  "proxy = ''0x216B4B4Ba9F3e719726886d34a177484278Bfcae''"

definition example_body :: "jsval \<Rightarrow> jsval list \<Rightarrow> bool \<Rightarrow> jsval" where
  "example_body bps excluded unsigned =
     Obj [(''wallet'', Str W), (''tokenFrom'', Str USDT), (''tokenTo'', Str WBTC),
          (''amountWei'', Str ''18703660''), (''slippageBps'', bps),
          (''excludeDexs'', Arr excluded), (''unsignedOnly'', Boolean unsigned)]"

definition example_quote :: jsval where
  "example_quote =
     Obj [(''priceRoute'',
           Obj [(''destAmount'', Str ''27000''), (''tokenTransferProxy'', Str proxy)])]"

text \<open>A quote whose wrapper carries the amount 0 and whose top level carries "5".\<close>

definition zero_nested_quote :: jsval where
  "zero_nested_quote =
     Obj [(''priceRoute'',
           Obj [(''destAmount'', Num (Fin 0)), (''tokenTransferProxy'', Str proxy)]),
          (''destAmount'', Str ''5'')]"

definition example_txData :: jsval where
  "example_txData =
     Obj [(''to'', Str ''0xDEF171Fe48CF0115B1d80b88dc8eAB59176FEe57''),
          (''data'', Str ''0x54e3f31b''), (''value'', Str ''0''), (''gas'', Str ''500000'')]"

definition TypeError :: jsval where
  "TypeError = Obj [(''message'', Str ''Cannot convert object to primitive value'')]"

text \<open>The error axios throws when the service answers 503 with a JSON body.\<close>

definition upstream_503 :: jsval where
  "upstream_503 =
     Obj [(''message'', Str ''Request failed with status code 503''),
          (''response'',
           Obj [(''status'', Num (Fin 503)),
                (''data'', Obj [(''error'', Str ''Service Unavailable'')])])]"

definition example_env :: env where
  "example_env =
     \<lparr>CHAIN_ID = Fin 42161,
      PARASWAP_PARTNER = None,
      signer = Some W,
      getAddress = (\<lambda>v. case v of Str s \<Rightarrow> Some s | _ \<Rightarrow> None),
      ToString_rt = (\<lambda>v. Inl TypeError),
      ToNumber_rt = (\<lambda>v. Inr NaN),
      ToBigInt_rt = (\<lambda>v. Inl TypeError),
      axios_get_prices = (\<lambda>p. Inr example_quote),
      allowance = (\<lambda>token owner spender. Inr 0),
      approve = (\<lambda>token spender amount. Inr \<lparr>hash = Str ''0xa1''\<rparr>),
      wait_approve = (\<lambda>tx. Inr \<lparr>blockNumber = Num (Fin 100), status = Num (Fin 1)\<rparr>),
      axios_post_transactions = (\<lambda>b. Inr example_txData),
      sendTransaction = (\<lambda>t. Inr \<lparr>hash = Str ''0xb2''\<rparr>),
      wait_swap = (\<lambda>tx. Inr \<lparr>blockNumber = Num (Fin 101), status = Num (Fin 1)\<rparr>)\<rparr>"

text \<open>The same world with the pricing service down, and one with the zero-amount quote.\<close>

definition quote_down_env :: env where
  "quote_down_env = example_env\<lparr>axios_get_prices := (\<lambda>p. Inl upstream_503)\<rparr>"

definition zero_nested_env :: env where
  "zero_nested_env = example_env\<lparr>axios_get_prices := (\<lambda>p. Inr zero_nested_quote)\<rparr>"

text \<open>A world whose pricing service finds no route, and one whose signer is another
  address.\<close>

definition no_route_env :: env where
  "no_route_env = example_env\<lparr>axios_get_prices := (\<lambda>p. Inr (Obj [(''error'', Str ''No routes found'')]))\<rparr>"

definition other_signer_env :: env where
  "other_signer_env = example_env\<lparr>signer := Some USDT\<rparr>"

text \<open>
  A world in which the swap transaction is mined in block 101 and reverts: its receipt
  has status 0, and the wait for it throws.
\<close>

definition reverted_env :: env where
  "reverted_env =
     example_env\<lparr>wait_swap :=
       (\<lambda>tx. Inl (CALL_EXCEPTION ''action=sendTransaction, code=CALL_EXCEPTION''
                   \<lparr>blockNumber = Num (Fin 101), status = Num (Fin 0)\<rparr>))\<rparr>"

text \<open>What \<open>read_request\<close> makes of \<open>example_body\<close>.\<close>

definition example_request :: "jsnum \<Rightarrow> jsval list \<Rightarrow> bool \<Rightarrow> request" where
  "example_request bps excluded unsigned =
     \<lparr>wallet = W, tokenFrom = USDT, tokenTo = WBTC, amountWei = ''18703660'',
      slippageBps = bps, excludeDexs = excluded, unsignedOnly = unsigned\<rparr>"

section \<open>The stages of a run\<close>

text \<open>
  Every call of a run is made by one stage, with arguments fixed by the request and by the
  answers received so far; these lemmas follow a call, and a returned response, back
  through the stages to \<open>swap\<close>.
\<close>

subsection \<open>Which calls a stage makes\<close>

lemma send_stage_call:
  assumes "send_stage e txData d logs0 calls0 = (out, logs1, calls1)"
    and "c \<in> set calls1"
  shows "c \<in> set calls0 \<or> (\<exists>t. c = SendTransaction t) \<or>
         (\<exists>tx. c = TxWait tx \<and>
            (\<forall>rc. wait_swap e tx = Inr rc \<longrightarrow> out = Returned (confirmed tx rc d logs1)) \<and>
            (\<forall>err. wait_swap e tx = Inl err \<longrightarrow> out = Thrown err))"
  using assms
  by (auto simp: send_stage_def Let_def split: sum.splits if_splits)

lemma build_stage_call:
  assumes "build_stage e r priceRoute d logs0 calls0 = (out, logs1, calls1)"
    and "c \<in> set calls1"
  shows "c \<in> set calls0 \<or>
         (c = TransactionsPost (txBody e r priceRoute) \<and>
            (\<forall>err. axios_post_transactions e (txBody e r priceRoute) = Inl err \<longrightarrow>
               out = Thrown err)) \<or>
         (\<exists>t. c = SendTransaction t) \<or>
         (\<exists>tx. c = TxWait tx \<and>
            (\<forall>rc. wait_swap e tx = Inr rc \<longrightarrow> out = Returned (confirmed tx rc d logs1)) \<and>
            (\<forall>err. wait_swap e tx = Inl err \<longrightarrow> out = Thrown err))"
  using assms
  by (auto simp: build_stage_def Let_def split: sum.splits if_splits dest!: send_stage_call)


lemma ensureAllowance_call:
  assumes "ensureAllowance e token owner spender neededWei logs0 = (x, logs1, calls1)"
    and "c \<in> set calls1"
  shows "c = AllowanceRead token owner spender \<or> c = Approve token spender MaxUint256 \<or>
         (\<exists>tx. c = ApproveWait tx)"
  using assms
  by (auto simp: ensureAllowance_def Let_def split: sum.splits if_splits)

lemma allowance_stage_call:
  assumes "allowance_stage e r priceRoute d spender logs0 calls0 = (out, logs1, calls1)"
    and "c \<in> set calls1"
  shows "c \<in> set calls0 \<or>
         c = AllowanceRead (tokenFrom r) (wallet r) spender \<or>
         c = Approve (tokenFrom r) spender MaxUint256 \<or>
         (\<exists>tx. c = ApproveWait tx) \<or>
         (c = TransactionsPost (txBody e r priceRoute) \<and>
            (\<forall>err. axios_post_transactions e (txBody e r priceRoute) = Inl err \<longrightarrow>
               out = Thrown err)) \<or>
         (\<exists>t. c = SendTransaction t) \<or>
         (\<exists>tx. c = TxWait tx \<and>
            (\<forall>rc. wait_swap e tx = Inr rc \<longrightarrow> out = Returned (confirmed tx rc d logs1)) \<and>
            (\<forall>err. wait_swap e tx = Inl err \<longrightarrow> out = Thrown err))"
proof (cases "unsignedOnly r")
  case True
  with assms show ?thesis
    by (auto simp: allowance_stage_def dest!: build_stage_call)
next
  case False
  obtain x l cs where
    ea: "ensureAllowance e (tokenFrom r) (wallet r) spender (Str (amountWei r)) logs0 = (x, l, cs)"
    by (cases "ensureAllowance e (tokenFrom r) (wallet r) spender (Str (amountWei r)) logs0") auto
  show ?thesis
  proof (cases x)
    case (Inl err)
    with assms False ea show ?thesis
      by (auto simp: allowance_stage_def dest!: ensureAllowance_call)
  next
    case (Inr b)
    with assms False ea
    have "build_stage e r priceRoute d l (calls0 @ cs) = (out, logs1, calls1)"
      by (simp add: allowance_stage_def)
    from build_stage_call [OF this assms(2)] ensureAllowance_call [OF ea, of c]
    show ?thesis by auto
  qed
qed

lemma quote_stage_call:
  assumes "quote_stage e r logs0 = (out, logs1, calls1)"
    and "c \<in> set calls1"
  shows "\<exists>csv. js_join e '','' (excludeDexs r) = Inr csv \<and>
           (c = PricesGet (pricesParams e r csv) \<or>
            (\<exists>priceRoute d.
               axios_get_prices e (pricesParams e r csv) = Inr priceRoute \<and>
               truthy (quoted_destAmount priceRoute) \<and>
               truthy (quoted_tokenTransferProxy priceRoute) \<and>
               js_String e (quoted_destAmount priceRoute) = Inr d \<and>
               (c = AllowanceRead (tokenFrom r) (wallet r) (quoted_tokenTransferProxy priceRoute) \<or>
                c = Approve (tokenFrom r) (quoted_tokenTransferProxy priceRoute) MaxUint256 \<or>
                (\<exists>tx. c = ApproveWait tx) \<or>
                (c = TransactionsPost (txBody e r priceRoute) \<and>
                   (\<forall>err. axios_post_transactions e (txBody e r priceRoute) = Inl err \<longrightarrow>
                      out = Thrown err)) \<or>
                (\<exists>t. c = SendTransaction t) \<or>
                (\<exists>tx. c = TxWait tx \<and>
                   (\<forall>rc. wait_swap e tx = Inr rc \<longrightarrow>
                      out = Returned (confirmed tx rc d logs1)) \<and>
                   (\<forall>err. wait_swap e tx = Inl err \<longrightarrow> out = Thrown err)))))"
proof (cases "js_join e '','' (excludeDexs r)")
  case (Inl err)
  with assms show ?thesis by (simp add: quote_stage_def)
next
  case csv: (Inr csv)
  show ?thesis
  proof (cases "axios_get_prices e (pricesParams e r csv)")
    case (Inl err)
    with assms csv show ?thesis by (auto simp: quote_stage_def Let_def)
  next
    case pr: (Inr priceRoute)
    show ?thesis
    proof (cases "\<not> truthy (quoted_destAmount priceRoute) \<or>
                  \<not> truthy (quoted_tokenTransferProxy priceRoute)")
      case True
      with assms csv pr show ?thesis by (auto simp: quote_stage_def Let_def)
    next
      case ok: False
      show ?thesis
      proof (cases "js_String e (quoted_destAmount priceRoute)")
        case (Inl err)
        with assms csv pr ok show ?thesis by (auto simp: quote_stage_def Let_def)
      next
        case d: (Inr d)
        with assms csv pr ok
        have "allowance_stage e r priceRoute d (quoted_tokenTransferProxy priceRoute)
                (logs0 @ [(''PARASWAP_PRICES'', pricesParams e r csv)] @
                   [(''PRICE_OK'',
                     Obj [(''destAmount'', Str d),
                          (''tokenTransferProxy'', quoted_tokenTransferProxy priceRoute)])])
                [PricesGet (pricesParams e r csv)] = (out, logs1, calls1)"
          by (auto simp: quote_stage_def Let_def)
        from allowance_stage_call [OF this assms(2)] csv pr ok d
        show ?thesis by auto
      qed
    qed
  qed
qed

lemma swap_call:
  assumes "swap e body = (res, logs1, calls1)"
    and "c \<in> set calls1"
  shows "\<exists>r csv.
           read_request e body = Inr r \<and> \<not> amount_invalid (amountWei r) \<and>
           \<not> slippage_invalid (slippageBps r) \<and> signer_check e r = None \<and>
           js_join e '','' (excludeDexs r) = Inr csv \<and>
           (c = PricesGet (pricesParams e r csv) \<or>
            (\<exists>priceRoute d.
               axios_get_prices e (pricesParams e r csv) = Inr priceRoute \<and>
               truthy (quoted_destAmount priceRoute) \<and>
               truthy (quoted_tokenTransferProxy priceRoute) \<and>
               js_String e (quoted_destAmount priceRoute) = Inr d \<and>
               (c = AllowanceRead (tokenFrom r) (wallet r) (quoted_tokenTransferProxy priceRoute) \<or>
                c = Approve (tokenFrom r) (quoted_tokenTransferProxy priceRoute) MaxUint256 \<or>
                (\<exists>tx. c = ApproveWait tx) \<or>
                (c = TransactionsPost (txBody e r priceRoute) \<and>
                   (\<forall>err. axios_post_transactions e (txBody e r priceRoute) = Inl err \<longrightarrow>
                      res = catch_handler err)) \<or>
                (\<exists>t. c = SendTransaction t) \<or>
                (\<exists>tx. c = TxWait tx \<and>
                   (\<forall>rc. wait_swap e tx = Inr rc \<longrightarrow> res = confirmed tx rc d logs1) \<and>
                   (\<forall>err. wait_swap e tx = Inl err \<longrightarrow> res = catch_handler err)))))"
proof (cases "read_request e body")
  case (Inl err)
  with assms show ?thesis by (simp add: swap_def swap_try_def)
next
  case r: (Inr r)
  show ?thesis
  proof (cases "amount_invalid (amountWei r) \<or> slippage_invalid (slippageBps r) \<or>
                signer_check e r \<noteq> None")
    case True
    with assms r show ?thesis
      by (auto simp: swap_def swap_try_def Let_def split: option.splits if_splits)
  next
    case ok: False
    obtain out where q: "quote_stage e r [wallet_entry r] = (out, logs1, calls1)"
      and res: "res = (case out of Returned x \<Rightarrow> x | Thrown err \<Rightarrow> catch_handler err)"
      using assms(1) r ok
      by (cases "quote_stage e r [wallet_entry r]")
        (auto simp: swap_def swap_try_def Let_def split: outcome.splits)
    from quote_stage_call [OF q assms(2)] r ok res show ?thesis
      by (auto split: outcome.splits)
  qed
qed

subsection \<open>What a returned response carries\<close>

lemma send_stage_returned:
  assumes "send_stage e txData d logs0 calls0 = (Returned res, logs1, calls1)"
  shows "logs res = Some logs1 \<and> length logs0 < length logs1 \<and>
         map_of (json res) ''destAmount'' = Some (Str d)"
  using assms
  by (auto simp: send_stage_def confirmed_def Let_def split: sum.splits if_splits)

lemma build_stage_returned:
  assumes "build_stage e r priceRoute d logs0 calls0 = (Returned res, logs1, calls1)"
  shows "logs res = Some logs1 \<and> length logs0 < length logs1 \<and>
         (map_of (json res) ''ok'' = Some (Boolean True) \<longrightarrow>
            map_of (json res) ''destAmount'' = Some (Str d))"
  using assms
  by (auto simp: build_stage_def Let_def split: sum.splits if_splits
      dest!: send_stage_returned)

lemma ensureAllowance_logs:
  assumes "ensureAllowance e token owner spender neededWei logs0 = (x, logs1, calls1)"
  shows "length logs0 \<le> length logs1"
  using assms
  by (auto simp: ensureAllowance_def Let_def split: sum.splits if_splits)

lemma allowance_stage_returned:
  assumes "allowance_stage e r priceRoute d spender logs0 calls0 = (Returned res, logs1, calls1)"
  shows "logs res = Some logs1 \<and> length logs0 < length logs1 \<and>
         (map_of (json res) ''ok'' = Some (Boolean True) \<longrightarrow>
            map_of (json res) ''destAmount'' = Some (Str d))"
proof (cases "unsignedOnly r")
  case True
  with assms show ?thesis
    by (auto simp: allowance_stage_def dest!: build_stage_returned)
next
  case False
  obtain x l cs where
    ea: "ensureAllowance e (tokenFrom r) (wallet r) spender (Str (amountWei r)) logs0 = (x, l, cs)"
    by (cases "ensureAllowance e (tokenFrom r) (wallet r) spender (Str (amountWei r)) logs0") auto
  with assms False have "build_stage e r priceRoute d l (calls0 @ cs) = (Returned res, logs1, calls1)"
    by (cases x) (auto simp: allowance_stage_def)
  from build_stage_returned [OF this] ensureAllowance_logs [OF ea] show ?thesis by auto
qed

lemma quote_stage_returned:
  assumes "quote_stage e r logs0 = (Returned res, logs1, calls1)"
  shows "logs res = Some logs1 \<and> length logs0 < length logs1 \<and>
         (map_of (json res) ''ok'' = Some (Boolean True) \<longrightarrow>
            (\<exists>csv priceRoute d.
               js_join e '','' (excludeDexs r) = Inr csv \<and>
               axios_get_prices e (pricesParams e r csv) = Inr priceRoute \<and>
               js_String e (quoted_destAmount priceRoute) = Inr d \<and>
               map_of (json res) ''destAmount'' = Some (Str d)))"
  using assms
  by (auto simp: quote_stage_def Let_def split: sum.splits if_splits
      dest!: allowance_stage_returned)


subsection \<open>Arithmetic of the slippage\<close>

text \<open>
  The grid of doubles: \<open>ulp_exp x\<close> is the exponent \<open>k\<close> with \<open>2\<^sup>k\<^sup>+\<^sup>5\<^sup>2 \<le> \<bar>x\<bar> < 2\<^sup>k\<^sup>+\<^sup>5\<^sup>3\<close>, and the
  double nearest to a real below 32 is within \<open>2\<^sup>-\<^sup>4\<^sup>9\<close> of it.
\<close>

lemma floor_rat_numeral_divide:
  "\<lfloor>numeral a / numeral b :: rat\<rfloor> = numeral a div numeral b"
  by (metis floor_divide_of_int_eq of_int_numeral)

lemma pow2_pos: "0 < pow2 e"
  by (simp add: pow2_def)

lemma pow2_Suc: "pow2 (e + 1) = 2 * pow2 e"
proof (cases "0 \<le> e")
  case True
  then show ?thesis by (simp add: pow2_def nat_add_distrib)
next
  case False
  then have "nat (- e) = Suc (nat (- (e + 1)))" by simp
  with False show ?thesis by (auto simp: pow2_def)
qed

lemma pow2_mono: "a \<le> b \<Longrightarrow> pow2 a \<le> pow2 b"
proof (induction "nat (b - a)" arbitrary: b)
  case 0
  then show ?case by simp
next
  case (Suc n)
  then have "n = nat ((b - 1) - a)" "a \<le> b - 1" by auto
  from Suc.hyps(1) [OF this] have "pow2 a \<le> pow2 (b - 1)" .
  also have "\<dots> \<le> pow2 b"
    using pow2_Suc [of "b - 1"] pow2_pos [of "b - 1"] by simp
  finally show ?case .
qed

lemma round_half_even_near: "\<bar>of_int (round_half_even y) - y\<bar> \<le> 1 / 2"
  unfolding round_half_even_def Let_def
  by (auto simp: abs_if; linarith)

lemma ulp_search_le:
  assumes "x < pow2 (k + 53)" and "e \<le> k" and "nat (k - e) \<le> n"
  shows "ulp_search x e n \<le> k"
  using assms
proof (induction n arbitrary: e)
  case 0
  then show ?case by simp
next
  case (Suc n)
  show ?case
  proof (cases "x < pow2 (e + 53)")
    case True
    with Suc.prems show ?thesis by simp
  next
    case False
    with Suc.prems have "e \<noteq> k" by auto
    with Suc.prems have "e + 1 \<le> k" "nat (k - (e + 1)) \<le> n" by auto
    from Suc.IH [OF Suc.prems(1) this] False show ?thesis by simp
  qed
qed

lemma ulp_search_lower: "e \<le> ulp_search x e n"
proof (induction n arbitrary: e)
  case 0
  then show ?case by simp
next
  case (Suc n)
  from Suc [of "e + 1"] show ?case by simp
qed

lemma ulp_search_ge:
  assumes "pow2 (k + 52) \<le> x" and "e \<le> k" and "nat (k - e) \<le> n"
  shows "k \<le> ulp_search x e n"
  using assms
proof (induction n arbitrary: e)
  case 0
  then show ?case by simp
next
  case (Suc n)
  show ?case
  proof (cases "e = k")
    case True
    with ulp_search_lower [of e x "Suc n"] show ?thesis by simp
  next
    case False
    with Suc.prems have lt: "e + 1 \<le> k" "nat (k - (e + 1)) \<le> n" by auto
    then have "pow2 (e + 53) \<le> pow2 (k + 52)" by (intro pow2_mono) simp
    with Suc.prems(1) have "\<not> x < pow2 (e + 53)" by simp
    with Suc.IH [OF Suc.prems(1) lt] show ?thesis by simp
  qed
qed

lemma ulp_exp_eq:
  assumes "pow2 (k + 52) \<le> \<bar>x\<bar>" and "\<bar>x\<bar> < pow2 (k + 53)"
    and "- 1074 \<le> k" and "k \<le> 971"
  shows "ulp_exp x = k"
proof -
  from assms have "nat (k - (- 1074)) \<le> 2045" by simp
  from ulp_search_le [OF assms(2,3) this] ulp_search_ge [OF assms(1,3) this]
  show ?thesis by (simp add: ulp_exp_def)
qed

lemma to_double_near:
  assumes "\<bar>x\<bar> < 32"
  shows "\<exists>d. to_double x = Fin d \<and> \<bar>d - x\<bar> \<le> 1 / 2 ^ 49"
proof -
  define u where "u = pow2 (ulp_exp x)"
  define d where "d = of_int (round_half_even (x / u)) * u"
  have "\<bar>x\<bar> < pow2 (- 48 + 53)" using assms by (simp add: pow2_def)
  then have "ulp_exp x \<le> - 48"
    unfolding ulp_exp_def by (rule ulp_search_le) simp_all
  then have "u \<le> pow2 (- 48)" unfolding u_def by (rule pow2_mono)
  then have u: "0 < u" "u \<le> 1 / 2 ^ 48" by (simp_all add: u_def pow2_pos pow2_def)
  have "d - x = (of_int (round_half_even (x / u)) - x / u) * u"
    using u by (simp add: d_def algebra_simps)
  then have "\<bar>d - x\<bar> = \<bar>of_int (round_half_even (x / u)) - x / u\<bar> * u"
    using u by (simp add: abs_mult)
  also have "\<dots> \<le> 1 / 2 * u"
    using round_half_even_near [of "x / u"] u by (intro mult_right_mono) simp_all
  also have "\<dots> \<le> 1 / 2 ^ 49" using u by simp
  finally have near: "\<bar>d - x\<bar> \<le> 1 / 2 ^ 49" .
  have "(1 :: rat) / 2 ^ 49 \<le> 1" by simp
  with near assms have "\<bar>d\<bar> < 64" by linarith
  moreover have "pow2 6 \<le> pow2 1024" by (rule pow2_mono) simp
  then have "64 \<le> pow2 1024" by (simp add: pow2_def)
  ultimately have "\<not> pow2 1024 \<le> d" "\<not> d \<le> - pow2 1024" by linarith+
  then have "to_double x = Fin d"
    by (simp add: to_double_def Let_def d_def u_def)
  with near show ?thesis by blast
qed

text \<open>
  The slippage posted for \<open>q\<close> basis points, \<^verbatim>\<open>Number((q / 100).toFixed(4))\<close>: a number
  within \<open>10\<^sup>-\<^sup>4\<close> of \<open>q / 100\<close>, and the very double that \<open>q / 100\<close> gives when \<open>q\<close> is whole.
\<close>

lemma round4_near:
  assumes "0 \<le> d"
  shows "\<bar>of_nat (round4 d) / 10000 - d\<bar> \<le> 1 / 20000"
proof -
  define f where "f = \<lfloor>d * 10000 + 1 / 2\<rfloor>"
  from assms have "0 \<le> f" by (simp add: f_def)
  then have n: "(of_nat (round4 d) :: rat) = of_int f"
    by (simp add: round4_def f_def)
  have "of_int f \<le> d * 10000 + 1 / 2" "d * 10000 + 1 / 2 < of_int f + 1"
    unfolding f_def by linarith+
  then show ?thesis unfolding n by (simp add: abs_if; linarith)
qed

lemma posted_slippage_near:
  assumes "1 \<le> q" and "q \<le> 2000"
  shows "\<exists>v. Number_toFixed4 (div100 (Fin q)) = Fin v \<and> \<bar>v - q / 100\<bar> < 1 / 10000"
proof -
  from assms have "\<bar>q / 100\<bar> < 32" by simp
  from to_double_near [OF this] obtain d where
    d: "to_double (q / 100) = Fin d" "\<bar>d - q / 100\<bar> \<le> 1 / 2 ^ 49"
    by blast
  have small: "(1 :: rat) / 2 ^ 49 < 1 / 100000" by simp
  from assms have "1 / 100 \<le> q / 100" "q / 100 \<le> 20" by simp_all
  with d(2) small have pos: "0 \<le> d" and below: "d \<le> 21" by linarith+
  from round4_near [OF pos] have n: "\<bar>of_nat (round4 d) / 10000 - d\<bar> \<le> 1 / 20000" .
  with pos below have "\<bar>of_nat (round4 d) / 10000 :: rat\<bar> < 32" by linarith
  from to_double_near [OF this] obtain v where
    v: "to_double (of_nat (round4 d) / 10000) = Fin v"
       "\<bar>v - of_nat (round4 d) / 10000\<bar> \<le> 1 / 2 ^ 49"
    by blast
  from pos d(1) v(1) have "Number_toFixed4 (div100 (Fin q)) = Fin v" by simp
  moreover from d(2) n v(2) small have "\<bar>v - q / 100\<bar> < 1 / 10000" by linarith
  ultimately show ?thesis by blast
qed

lemma posted_slippage_whole:
  assumes "q \<in> \<int>" and "1 \<le> q" and "q \<le> 2000"
  shows "Number_toFixed4 (div100 (Fin q)) = to_double (q / 100)"
proof -
  from assms obtain k where k: "q = of_int k" "0 \<le> k"
    by (auto elim!: Ints_cases)
  from assms have "\<bar>q / 100\<bar> < 32" by simp
  from to_double_near [OF this] obtain d where
    d: "to_double (q / 100) = Fin d" "\<bar>d - q / 100\<bar> \<le> 1 / 2 ^ 49"
    by blast
  have small: "(1 :: rat) / 2 ^ 49 < 1 / 100000" by simp
  from assms have "1 / 100 \<le> q / 100" by simp
  with d(2) small have pos: "0 \<le> d" by linarith
  have "d * 10000 - of_int (100 * k) = (d - q / 100) * 10000" by (simp add: k algebra_simps)
  with d(2) small have "\<bar>d * 10000 - of_int (100 * k)\<bar> < 1 / 2" by (simp add: abs_if; linarith)
  then have "\<lfloor>d * 10000 + 1 / 2\<rfloor> = 100 * k"
    by (intro floor_unique) linarith+
  with k have "of_nat (round4 d) / 10000 = q / 100"
    by (simp add: round4_def)
  with pos d(1) show ?thesis by simp
qed

text \<open>
  Two values written out: 120 basis points post the double nearest to 1.2, and 1.125
  basis points, whose quotient by 100 is the double just below 0.01125, post 0.0112.
\<close>

lemma to_double_120: "to_double (120 / 100) = Fin (5404319552844595 / 2 ^ 52)"
proof -
  have "ulp_exp (120 / 100) = - 52"
    by (rule ulp_exp_eq) (simp_all add: pow2_def)
  then show ?thesis
    by (simp add: to_double_def Let_def round_half_even_def pow2_def floor_rat_numeral_divide)
qed

lemma slippage_nine_eighths:
  "div100 (Fin (9 / 8)) = Fin (3242591731706757 / 2 ^ 58)"
  "toFixed4 (div100 (Fin (9 / 8))) = ''0.0112''"
  "Number_toFixed4 (div100 (Fin (9 / 8))) = to_double (112 / 10000)"
proof -
  have "ulp_exp (9 / 800) = - 59"
    by (rule ulp_exp_eq) (simp_all add: pow2_def)
  then show d: "div100 (Fin (9 / 8)) = Fin (3242591731706757 / 2 ^ 58)"
    by (simp add: to_double_def Let_def round_half_even_def pow2_def floor_rat_numeral_divide)
  have r: "round4 (3242591731706757 / 2 ^ 58) = 112"
    by (simp add: round4_def floor_rat_numeral_divide)
  have pos: "\<not> (3242591731706757 / 2 ^ 58 :: rat) < 0"
    by simp
  have "toFixed4 (Fin (3242591731706757 / 2 ^ 58)) = fixed4 (3242591731706757 / 2 ^ 58)"
    by (simp only: toFixed4.simps pos if_False)
  also have "\<dots> = dec (112 div 10000) @ ''.'' @ pad4 (dec (112 mod 10000))"
    by (simp only: fixed4_def r)
  also have "\<dots> = ''0.0112''"
    by (simp add: pad4_def dec.simps)
  finally show "toFixed4 (div100 (Fin (9 / 8))) = ''0.0112''"
    by (simp only: d)
  have "Number_toFixed4 (Fin (3242591731706757 / 2 ^ 58)) =
      to_double (of_nat (round4 (3242591731706757 / 2 ^ 58)) / 10000)"
    by (simp only: Number_toFixed4.simps pos if_False)
  also have "\<dots> = to_double (112 / 10000)"
    by (simp only: r of_nat_numeral)
  finally show "Number_toFixed4 (div100 (Fin (9 / 8))) = to_double (112 / 10000)"
    by (simp only: d)
qed

lemma slippage_invalid_iff:
  "slippage_invalid n \<longleftrightarrow> \<not> (\<exists>q. n = Fin q \<and> 1 \<le> q \<and> q \<le> 2000)"
  by (cases n) (auto simp: slippage_invalid_def)

lemma three_halves_not_whole: "(3 / 2 :: rat) \<notin> \<int>"
proof
  assume "(3 / 2 :: rat) \<in> \<int>"
  then obtain k :: int where "(3 / 2 :: rat) = of_int k" by (auto elim: Ints_cases)
  then have "(of_int (2 * k) :: rat) = of_int 3" by simp
  then have "2 * k = 3" by (simp only: of_int_eq_iff)
  then show False by presburger
qed

lemma read_request_slippage:
  assumes "read_request e body = Inr r"
    and "get body ''slippageBps'' = Num n"
  shows "slippageBps r = (if num_truthy n then n else Fin 0)"
  using assms
  by (auto simp: read_request_def Let_def js_Number_def js_or_def
      split: if_splits sum.splits)

lemma signer_check_message:
  "signer_check e r = Some m \<Longrightarrow> m \<noteq> msg_slippage"
  by (auto simp: signer_check_def msg_slippage_def msg_no_key_def msg_mismatch_def
      split: if_splits option.splits)

lemma elem_strings_names: "elem_strings e (map Str names) = Inr names"
  by (induction names) (simp_all add: js_String_def)


section \<open>Concrete runs\<close>

text \<open>
  The handler evaluated on the example request in the example worlds: the response, or
  its calls, of each run that a witness or a counterexample below refers to.
\<close>

lemmas example_defs = example_env_def quote_down_env_def zero_nested_env_def no_route_env_def
  other_signer_env_def reverted_env_def example_body_def example_request_def example_quote_def
  zero_nested_quote_def example_txData_def

lemmas run_defs = swap_def swap_try_def quote_stage_def allowance_stage_def build_stage_def
  send_stage_def ensureAllowance_def read_request_def assertAddr_def signer_check_def
  amount_invalid_def slippage_invalid_def requiredFields_def is_missing_def
  quoted_destAmount_def quoted_tokenTransferProxy_def
  js_or_def js_String_def js_Number_def js_BigInt_def js_join_def
  toLowerCase_def lower_char_def all_digits_def is_digit_def decval_def digit_val_def Let_def

lemma addresses_nonempty: "W \<noteq> []" "USDT \<noteq> []" "WBTC \<noteq> []" "proxy \<noteq> []"
  by (simp_all add: W_def USDT_def WBTC_def proxy_def)

lemma run_quote_down:
  "swap quote_down_env (example_body (Num (Fin 120)) [] False) =
     (catch_handler upstream_503,
      [wallet_entry (example_request (Fin 120) [] False),
       (''PARASWAP_PRICES'', pricesParams quote_down_env (example_request (Fin 120) [] False) [])],
      [PricesGet (pricesParams quote_down_env (example_request (Fin 120) [] False) [])])"
  by (simp add: run_defs example_defs addresses_nonempty)

lemma run_no_route:
  "swap no_route_env (example_body (Num (Fin 120)) [] False) =
     (\<lparr>http_status = Num (Fin 400),
       json = [(''ok'', Boolean False), (''error'', Str msg_no_route),
               (''raw'', Obj [(''error'', Str ''No routes found'')])],
       logs = Some [wallet_entry (example_request (Fin 120) [] False),
         (''PARASWAP_PRICES'', pricesParams no_route_env (example_request (Fin 120) [] False) [])]\<rparr>,
      [wallet_entry (example_request (Fin 120) [] False),
       (''PARASWAP_PRICES'', pricesParams no_route_env (example_request (Fin 120) [] False) [])],
      [PricesGet (pricesParams no_route_env (example_request (Fin 120) [] False) [])])"
  by (simp add: run_defs example_defs addresses_nonempty)

lemma run_unsigned:
  "fst (swap example_env (example_body (Num (Fin (3 / 2))) [] True)) =
     \<lparr>http_status = Num (Fin 200),
      json = [(''ok'', Boolean True), (''mode'', Str ''unsignedOnly''),
              (''txData'', example_txData), (''destAmount'', Str ''27000'')],
      logs = Some (fst (snd (swap example_env (example_body (Num (Fin (3 / 2))) [] True))))\<rparr> \<and>
   snd (snd (swap example_env (example_body (Num (Fin (3 / 2))) [] True))) =
     [PricesGet (pricesParams example_env (example_request (Fin (3 / 2)) [] True) []),
      TransactionsPost (txBody example_env (example_request (Fin (3 / 2)) [] True) example_quote)]"
  by (simp add: run_defs example_defs addresses_nonempty)

lemma run_signed:
  "fst (swap example_env (example_body (Num (Fin 120)) [] False)) =
     confirmed \<lparr>hash = Str ''0xb2''\<rparr> \<lparr>blockNumber = Num (Fin 101), status = Num (Fin 1)\<rparr>
       ''27000'' (fst (snd (swap example_env (example_body (Num (Fin 120)) [] False)))) \<and>
   snd (snd (swap example_env (example_body (Num (Fin 120)) [] False))) =
     [PricesGet (pricesParams example_env (example_request (Fin 120) [] False) []),
      AllowanceRead USDT W (Str proxy),
      Approve USDT (Str proxy) MaxUint256,
      ApproveWait \<lparr>hash = Str ''0xa1''\<rparr>,
      TransactionsPost (txBody example_env (example_request (Fin 120) [] False) example_quote),
      SendTransaction \<lparr>tx_to = Str ''0xDEF171Fe48CF0115B1d80b88dc8eAB59176FEe57'',
         tx_data = Str ''0x54e3f31b'', tx_value = 0, tx_gasLimit = Some 500000\<rparr>,
      TxWait \<lparr>hash = Str ''0xb2''\<rparr>]"
  by (simp add: run_defs example_defs addresses_nonempty)


lemma run_empty_name:
  "snd (snd (swap example_env (example_body (Num (Fin 120)) [Str []] True))) =
     [PricesGet (pricesParams example_env (example_request (Fin 120) [Str []] True) []),
      TransactionsPost
        (txBody example_env (example_request (Fin 120) [Str []] True) example_quote)]"
  by (simp add: run_defs example_defs addresses_nonempty)

lemma run_named:
  "snd (snd (swap example_env
       (example_body (Num (Fin 120)) [Str ''Dexalot'', Str ''Uniswap''] True))) =
     [PricesGet (pricesParams example_env
        (example_request (Fin 120) [Str ''Dexalot'', Str ''Uniswap''] True)
        ''Dexalot,Uniswap''),
      TransactionsPost
        (txBody example_env (example_request (Fin 120) [Str ''Dexalot'', Str ''Uniswap''] True)
           example_quote)]"
  by (simp add: run_defs example_defs addresses_nonempty)

lemma run_zero_nested:
  "fst (swap zero_nested_env (example_body (Num (Fin 120)) [] True)) =
     \<lparr>http_status = Num (Fin 200),
      json = [(''ok'', Boolean True), (''mode'', Str ''unsignedOnly''),
              (''txData'', example_txData), (''destAmount'', Str ''5'')],
      logs = Some (fst (snd (swap zero_nested_env (example_body (Num (Fin 120)) [] True))))\<rparr> \<and>
   snd (snd (swap zero_nested_env (example_body (Num (Fin 120)) [] True))) =
     [PricesGet (pricesParams zero_nested_env (example_request (Fin 120) [] True) []),
      TransactionsPost
        (txBody zero_nested_env (example_request (Fin 120) [] True) zero_nested_quote)]"
  by (simp add: run_defs example_defs addresses_nonempty)

lemma read_example:
  assumes "getAddress e = getAddress example_env" and "q \<noteq> 0"
  shows "read_request e (example_body (Num (Fin q)) excluded unsigned) =
         Inr (example_request (Fin q) excluded unsigned)"
  using assms
  by (simp add: read_request_def assertAddr_def example_body_def example_request_def
      example_env_def requiredFields_def is_missing_def js_or_def js_String_def js_Number_def
      addresses_nonempty)

lemma same_getAddress:
  "getAddress quote_down_env = getAddress example_env"
  "getAddress zero_nested_env = getAddress example_env"
  "getAddress no_route_env = getAddress example_env"
  "getAddress other_signer_env = getAddress example_env"
  "getAddress reverted_env = getAddress example_env"
  by (simp_all add: quote_down_env_def zero_nested_env_def no_route_env_def other_signer_env_def
      reverted_env_def)


section \<open>The claims\<close>

subsection \<open>C1: the trace in failure responses\<close>

text \<open>
  Claim C1. A swap request that fails at any step (quote transport error, approval
  failure, build failure, broadcast failure) is answered with the trace accumulated up to
  the failure. Each of these failures is a thrown exception, answered by the \<^verbatim>\<open>catch\<close>
  clause, whose object has no \<^verbatim>\<open>logs\<close> property, although the responses of lines 184 to
  291 all carry it. At the example request with the pricing service answering 503, the
  trace holds two entries and the response holds none of them.
\<close>

theorem catch_response_omits_trace:
  "logs (fst (swap quote_down_env (example_body (Num (Fin 120)) [] False))) = None \<and>
   fst (snd (swap quote_down_env (example_body (Num (Fin 120)) [] False))) =
     [wallet_entry (example_request (Fin 120) [] False),
      (''PARASWAP_PRICES'',
       pricesParams quote_down_env (example_request (Fin 120) [] False) [])]"
  by (simp add: run_quote_down catch_handler_def)

theorem catch_response_omits_trace_witness:
  "logs (fst (swap quote_down_env (example_body (Num (Fin 120)) [] False))) \<noteq>
   Some (fst (snd (swap quote_down_env (example_body (Num (Fin 120)) [] False))))"
  using catch_response_omits_trace by simp

subsection \<open>C2: ensureAllowance\<close>

text \<open>
  Claim C2. Where the allowance read gives \<open>a\<close> and the needed amount is \<open>needed\<close>: if
  \<open>needed \<le> a\<close>, \<^verbatim>\<open>ensureAllowance\<close> makes the read and nothing else, so no chain write,
  and returns \<^verbatim>\<open>approved: false\<close>; otherwise its only chain write is one approval of
  \<^verbatim>\<open>MaxUint256\<close>, it never returns \<^verbatim>\<open>approved: false\<close>, and it returns \<^verbatim>\<open>approved: true\<close>
  exactly when the approval was submitted and its \<^verbatim>\<open>wait()\<close> returned, the wait being the
  last call made.
\<close>

theorem ensureAllowance_writes:
  assumes "allowance e token owner spender = Inr a"
    and "js_BigInt e neededWei = Inr needed"
  shows "(needed \<le> int a \<longrightarrow>
            fst (ensureAllowance e token owner spender neededWei logs0) = Inr False \<and>
            snd (snd (ensureAllowance e token owner spender neededWei logs0)) =
              [AllowanceRead token owner spender] \<and>
            filter is_write (snd (snd (ensureAllowance e token owner spender neededWei logs0)))
              = []) \<and>
         (int a < needed \<longrightarrow>
            filter is_write (snd (snd (ensureAllowance e token owner spender neededWei logs0)))
              = [Approve token spender MaxUint256] \<and>
            fst (ensureAllowance e token owner spender neededWei logs0) \<noteq> Inr False \<and>
            (fst (ensureAllowance e token owner spender neededWei logs0) = Inr True \<longleftrightarrow>
               (\<exists>tx rc. approve e token spender MaxUint256 = Inr tx \<and>
                        wait_approve e tx = Inr rc \<and>
                        snd (snd (ensureAllowance e token owner spender neededWei logs0)) =
                          [AllowanceRead token owner spender,
                           Approve token spender MaxUint256, ApproveWait tx])))"
  using assms by (auto simp: ensureAllowance_def Let_def split: sum.splits)

theorem ensureAllowance_writes_witness:
  "fst (ensureAllowance example_env USDT W (Str proxy) (Str ''18703660'') []) = Inr True \<and>
   filter is_write
     (snd (snd (ensureAllowance example_env USDT W (Str proxy) (Str ''18703660'') []))) =
     [Approve USDT (Str proxy) MaxUint256] \<and>
   fst (ensureAllowance (example_env\<lparr>allowance := \<lambda>t ow s. Inr 18703660\<rparr>) USDT W
          (Str proxy) (Str ''18703660'') []) = Inr False \<and>
   filter is_write
     (snd (snd (ensureAllowance (example_env\<lparr>allowance := \<lambda>t ow s. Inr 18703660\<rparr>) USDT W
                  (Str proxy) (Str ''18703660'') []))) = []"
  using
    ensureAllowance_writes [of example_env USDT W "Str proxy" 0 "Str ''18703660''"
      18703660 "[]"]
    ensureAllowance_writes [of "example_env\<lparr>allowance := \<lambda>t ow s. Inr 18703660\<rparr>" USDT W
      "Str proxy" 18703660 "Str ''18703660''" 18703660 "[]"]
  by (simp add: ensureAllowance_def example_env_def js_BigInt_def all_digits_def
      is_digit_def decval_def digit_val_def)

subsection \<open>C3: no route\<close>

text \<open>
  Claim C3. When the pricing service answers the quote request with a payload in which
  the destination amount or the transfer proxy is missing (or otherwise falsy), the
  response is the 400 "no route" response with the raw payload and the trace, and the
  quote request is the only call of the run: no allowance read, no approval, no build
  request.
\<close>

theorem no_route:
  assumes "swap e body = (res, logs1, calls1)"
    and "PricesGet p \<in> set calls1"
    and "axios_get_prices e p = Inr priceRoute"
    and "\<not> truthy (quoted_destAmount priceRoute) \<or>
         \<not> truthy (quoted_tokenTransferProxy priceRoute)"
  shows "res = \<lparr>http_status = Num (Fin 400),
                 json = [(''ok'', Boolean False), (''error'', Str msg_no_route),
                         (''raw'', priceRoute)],
                 logs = Some logs1\<rparr> \<and>
         calls1 = [PricesGet p]"
proof -
  from swap_call [OF assms(1,2)] obtain r csv where
    r: "read_request e body = Inr r" "\<not> amount_invalid (amountWei r)"
       "\<not> slippage_invalid (slippageBps r)" "signer_check e r = None"
       "js_join e '','' (excludeDexs r) = Inr csv"
    and p: "p = pricesParams e r csv"
    by auto
  from r p assms(3,4) have "swap e body =
      (\<lparr>http_status = Num (Fin 400),
        json = [(''ok'', Boolean False), (''error'', Str msg_no_route), (''raw'', priceRoute)],
        logs = Some [wallet_entry r, (''PARASWAP_PRICES'', p)]\<rparr>,
       [wallet_entry r, (''PARASWAP_PRICES'', p)], [PricesGet p])"
    by (auto simp: swap_def swap_try_def quote_stage_def Let_def)
  with assms(1) show ?thesis by auto
qed

theorem no_route_witness:
  "fst (swap no_route_env (example_body (Num (Fin 120)) [] False)) =
     \<lparr>http_status = Num (Fin 400),
      json = [(''ok'', Boolean False), (''error'', Str msg_no_route),
              (''raw'', Obj [(''error'', Str ''No routes found'')])],
      logs = Some (fst (snd (swap no_route_env (example_body (Num (Fin 120)) [] False))))\<rparr> \<and>
   snd (snd (swap no_route_env (example_body (Num (Fin 120)) [] False))) =
     [PricesGet (pricesParams no_route_env (example_request (Fin 120) [] False) [])]"
proof -
  have answer: "axios_get_prices no_route_env
      (pricesParams no_route_env (example_request (Fin 120) [] False) []) =
      Inr (Obj [(''error'', Str ''No routes found'')])"
    by (simp add: no_route_env_def)
  have lacking: "\<not> truthy (quoted_destAmount (Obj [(''error'', Str ''No routes found'')])) \<or>
      \<not> truthy (quoted_tokenTransferProxy (Obj [(''error'', Str ''No routes found'')]))"
    by (simp add: quoted_destAmount_def js_or_def)
  from no_route [OF run_no_route _ answer lacking] show ?thesis
    by (simp add: run_no_route)
qed

subsection \<open>C4: the signer check comes first\<close>

text \<open>
  Claim C4. For a request read in signed mode (\<^verbatim>\<open>unsignedOnly\<close> falsy) while the configured
  signer's address differs from the request's wallet after lower-casing both, the run
  makes no call at all (no quote, allowance or build request) and answers 400 with
  \<^verbatim>\<open>ok: false\<close>; when the amount and the slippage are valid, the answer is the
  wallet/signer mismatch message with the trace.
\<close>

theorem signer_mismatch:
  assumes "read_request e body = Inr r"
    and "\<not> unsignedOnly r"
    and "signer e = Some signerAddr"
    and "toLowerCase signerAddr \<noteq> toLowerCase (wallet r)"
  shows "snd (snd (swap e body)) = [] \<and>
         http_status (fst (swap e body)) = Num (Fin 400) \<and>
         map_of (json (fst (swap e body))) ''ok'' = Some (Boolean False) \<and>
         (\<not> amount_invalid (amountWei r) \<and> \<not> slippage_invalid (slippageBps r) \<longrightarrow>
            fst (swap e body) = rejected (msg_mismatch (wallet r) signerAddr) [wallet_entry r])"
  using assms
  by (simp add: swap_def swap_try_def signer_check_def rejected_def Let_def)

theorem signer_mismatch_witness:
  "snd (snd (swap other_signer_env (example_body (Num (Fin 120)) [] False))) = [] \<and>
   fst (swap other_signer_env (example_body (Num (Fin 120)) [] False)) =
     rejected (msg_mismatch W USDT) [wallet_entry (example_request (Fin 120) [] False)]"
  using signer_mismatch [of other_signer_env "example_body (Num (Fin 120)) [] False"
      "example_request (Fin 120) [] False" USDT]
  by (simp add: read_example same_getAddress other_signer_env_def example_request_def
      amount_invalid_def slippage_invalid_def all_digits_def is_digit_def
      toLowerCase_def lower_char_def W_def USDT_def)


subsection \<open>C5: the build request carries a slippage and no destination amount\<close>

text \<open>
  Claim C5. Every body posted to the transaction-build service has exactly the
  properties \<^verbatim>\<open>priceRoute\<close>, \<^verbatim>\<open>srcToken\<close>, \<^verbatim>\<open>destToken\<close>, \<^verbatim>\<open>srcAmount\<close>, \<^verbatim>\<open>userAddress\<close>,
  \<^verbatim>\<open>slippage\<close> and \<^verbatim>\<open>partner\<close>: it has no \<^verbatim>\<open>destAmount\<close>, and its \<^verbatim>\<open>slippage\<close> is a finite
  number \<open>v\<close>, the request's basis points \<open>q\<close> (a number from 1 to 2000) as a percentage:
  \<open>v\<close> is \<^verbatim>\<open>Number((q / 100).toFixed(4))\<close>, which is within \<open>10\<^sup>-\<^sup>4\<close> of \<open>q / 100\<close>, and is the
  double that \<open>q / 100\<close> gives when \<open>q\<close> is whole.
\<close>

theorem build_body_slippage_only:
  assumes "swap e body = (res, logs1, calls1)"
    and "TransactionsPost b \<in> set calls1"
  shows "keys b = [''priceRoute'', ''srcToken'', ''destToken'', ''srcAmount'', ''userAddress'',
                   ''slippage'', ''partner''] \<and>
         ''destAmount'' \<notin> set (keys b) \<and>
         get b ''destAmount'' = Undefined \<and>
         (\<exists>r q v. read_request e body = Inr r \<and> slippageBps r = Fin q \<and> 1 \<le> q \<and> q \<le> 2000 \<and>
            get b ''slippage'' = Num (Fin v) \<and>
            Number_toFixed4 (div100 (Fin q)) = Fin v \<and>
            \<bar>v - q / 100\<bar> < 1 / 10000 \<and>
            (q \<in> \<int> \<longrightarrow> to_double (q / 100) = Fin v))"
proof -
  from swap_call [OF assms] obtain r priceRoute where
    r: "read_request e body = Inr r" "\<not> slippage_invalid (slippageBps r)"
    and b: "b = txBody e r priceRoute"
    by auto
  from r(2) obtain q where q: "slippageBps r = Fin q" "1 \<le> q" "q \<le> 2000"
    by (auto simp: slippage_invalid_iff)
  have shape: "keys b = [''priceRoute'', ''srcToken'', ''destToken'', ''srcAmount'',
      ''userAddress'', ''slippage'', ''partner'']"
    and none: "get b ''destAmount'' = Undefined"
    by (simp_all add: b txBody_def)
  from posted_slippage_near [OF q(2,3)] obtain v where
    v: "Number_toFixed4 (div100 (Fin q)) = Fin v" "\<bar>v - q / 100\<bar> < 1 / 10000"
    by blast
  have "get b ''slippage'' = Num (Number_toFixed4 (div100 (Fin q)))"
    using q(1) by (simp add: b txBody_def del: div100.simps Number_toFixed4.simps)
  with v(1) have pct: "get b ''slippage'' = Num (Fin v)"
    by simp
  have whole: "q \<in> \<int> \<longrightarrow> to_double (q / 100) = Fin v"
    using posted_slippage_whole [of q] q(2,3) v(1) by simp
  from shape none r(1) q v pct whole show ?thesis by auto
qed

theorem build_body_slippage_only_witness:
  "keys (txBody example_env (example_request (Fin 120) [] False) example_quote) =
     [''priceRoute'', ''srcToken'', ''destToken'', ''srcAmount'', ''userAddress'',
      ''slippage'', ''partner''] \<and>
   get (txBody example_env (example_request (Fin 120) [] False) example_quote) ''destAmount'' =
     Undefined \<and>
   get (txBody example_env (example_request (Fin 120) [] False) example_quote) ''slippage'' =
     Num (Fin (5404319552844595 / 2 ^ 52))"
proof -
  have sent: "TransactionsPost (txBody example_env (example_request (Fin 120) [] False)
      example_quote) \<in> set (snd (snd (swap example_env (example_body (Num (Fin 120)) [] False))))"
    by (simp add: run_signed)
  have run: "swap example_env (example_body (Num (Fin 120)) [] False) =
      (fst (swap example_env (example_body (Num (Fin 120)) [] False)),
       fst (snd (swap example_env (example_body (Num (Fin 120)) [] False))),
       snd (snd (swap example_env (example_body (Num (Fin 120)) [] False))))"
    by simp
  have request: "read_request example_env (example_body (Num (Fin 120)) [] False) =
      Inr (example_request (Fin 120) [] False)"
    by (rule read_example) simp_all
  have bps: "slippageBps (example_request (Fin 120) [] False) = Fin 120"
    by (simp add: example_request_def)
  have whole: "(120 :: rat) \<in> \<int>"
    by simp
  from build_body_slippage_only [OF run sent] request bps whole to_double_120
  show ?thesis
    by auto
qed

subsection \<open>C6: a rejection by the pricing or build service\<close>

text \<open>
  Claim C6, as stated: every non-2xx answer of the pricing or build service becomes a
  400-class response. It does not: with the pricing service answering 503, the response
  has status 503.
\<close>

theorem upstream_status_passed_on_counterexample:
  "http_status (fst (swap quote_down_env (example_body (Num (Fin 120)) [] False))) =
     Num (Fin 503) \<and>
   \<not> is_4xx (http_status (fst (swap quote_down_env (example_body (Num (Fin 120)) [] False))))"
  by (simp add: run_quote_down catch_handler_def upstream_503_def js_or_def)

text \<open>
  Claim C6, amended. When the quote request or the build request is answered with a
  status \<open>s\<close> outside 2xx (axios throws an error \<open>err\<close> whose \<^verbatim>\<open>response.status\<close> is \<open>s\<close>;
  every HTTP status is non-zero), the response has that same status \<open>s\<close>, so it is
  400-class exactly when \<open>s\<close> is; its \<^verbatim>\<open>details\<close> is the upstream body (null when the body
  is falsy), and its \<^verbatim>\<open>error\<close> is the body's \<^verbatim>\<open>error\<close>, else the error's message, else
  "Erro".
\<close>

theorem upstream_status_passed_on:
  assumes "swap e body = (res, logs1, calls1)"
    and "PricesGet p \<in> set calls1 \<and> axios_get_prices e p = Inl err \<or>
         TransactionsPost b \<in> set calls1 \<and> axios_post_transactions e b = Inl err"
    and "get (get err ''response'') ''status'' = Num (Fin s)"
    and "s \<noteq> 0"
  shows "http_status res = Num (Fin s) \<and>
         (is_4xx (http_status res) \<longleftrightarrow> 400 \<le> s \<and> s < 500) \<and>
         map_of (json res) ''details'' = Some (js_or (get (get err ''response'') ''data'') Null) \<and>
         map_of (json res) ''error'' =
           Some (js_or (get (get (get err ''response'') ''data'') ''error'')
                   (js_or (get err ''message'') (Str ''Erro'')))"
proof -
  have "res = catch_handler err"
    using assms(2)
  proof (elim disjE conjE)
    assume sent: "PricesGet p \<in> set calls1" and thrown: "axios_get_prices e p = Inl err"
    from swap_call [OF assms(1) sent] obtain r csv where
      r: "read_request e body = Inr r" "\<not> amount_invalid (amountWei r)"
         "\<not> slippage_invalid (slippageBps r)" "signer_check e r = None"
         "js_join e '','' (excludeDexs r) = Inr csv"
      and p: "p = pricesParams e r csv"
      by auto
    from r p thrown have "fst (swap e body) = catch_handler err"
      by (simp add: swap_def swap_try_def quote_stage_def Let_def)
    with assms(1) show ?thesis by simp
  next
    assume sent: "TransactionsPost b \<in> set calls1"
      and thrown: "axios_post_transactions e b = Inl err"
    from swap_call [OF assms(1) sent] thrown show ?thesis by auto
  qed
  with assms(3,4) show ?thesis
    by (simp add: catch_handler_def js_or_def)
qed

theorem upstream_status_passed_on_witness:
  "http_status (fst (swap quote_down_env (example_body (Num (Fin 120)) [] False))) =
     Num (Fin 503) \<and>
   map_of (json (fst (swap quote_down_env (example_body (Num (Fin 120)) [] False))))
     ''details'' = Some (Obj [(''error'', Str ''Service Unavailable'')])"
proof -
  have thrown: "axios_get_prices quote_down_env
      (pricesParams quote_down_env (example_request (Fin 120) [] False) []) = Inl upstream_503"
    by (simp add: quote_down_env_def)
  have st: "get (get upstream_503 ''response'') ''status'' = Num (Fin 503)"
    and body: "get (get upstream_503 ''response'') ''data'' =
      Obj [(''error'', Str ''Service Unavailable'')]"
    by (simp_all add: upstream_503_def)
  from upstream_status_passed_on [where b = Null, OF run_quote_down _ st] thrown body
  show ?thesis
    by (simp add: run_quote_down js_or_def)
qed

subsection \<open>C7: the slippage check\<close>

text \<open>
  Claim C7, as stated: validation fails exactly when the slippage is not an integer in
  [1, 2000]. It does not: the example request with \<^verbatim>\<open>slippageBps: 1.5\<close>, which is not an
  integer, passes the check and is answered 200.
\<close>

theorem slippage_check_counterexample:
  "http_status (fst (swap example_env (example_body (Num (Fin (3 / 2))) [] True))) =
     Num (Fin 200) \<and>
   (3 / 2 :: rat) \<notin> \<int>"
  by (simp add: run_unsigned three_halves_not_whole)

text \<open>
  Claim C7, amended. For a request whose body, required fields, addresses and amount
  have passed, the response is the 400 "slippageBps" rejection exactly when the number
  \<^verbatim>\<open>Number(slippageBps || 0)\<close> is not a number \<open>q\<close> with \<open>1 \<le> q \<le> 2000\<close>, whole or not; so for
  a numeric \<^verbatim>\<open>slippageBps\<close> \<open>q\<close> the request is rejected exactly when \<open>q < 1\<close> or \<open>q > 2000\<close>,
  and 1 and 2000 pass.
\<close>

theorem slippage_check:
  assumes "read_request e body = Inr r"
    and "\<not> amount_invalid (amountWei r)"
  shows "(fst (swap e body) = rejected msg_slippage [wallet_entry r] \<longleftrightarrow>
            \<not> (\<exists>q. slippageBps r = Fin q \<and> 1 \<le> q \<and> q \<le> 2000)) \<and>
         (\<forall>q. get body ''slippageBps'' = Num (Fin q) \<longrightarrow>
            (fst (swap e body) = rejected msg_slippage [wallet_entry r] \<longleftrightarrow>
               q < 1 \<or> 2000 < q))"
proof -
  have main: "fst (swap e body) = rejected msg_slippage [wallet_entry r] \<longleftrightarrow>
      \<not> (\<exists>q. slippageBps r = Fin q \<and> 1 \<le> q \<and> q \<le> 2000)"
  proof (cases "slippage_invalid (slippageBps r)")
    case True
    with assms show ?thesis
      by (simp add: swap_def swap_try_def Let_def slippage_invalid_iff)
  next
    case valid: False
    have "fst (swap e body) \<noteq> rejected msg_slippage [wallet_entry r]"
    proof (cases "signer_check e r")
      case (Some m)
      with assms valid signer_check_message [OF Some] show ?thesis
        by (simp add: swap_def swap_try_def Let_def rejected_def)
    next
      case None
      obtain out lg cs where q: "quote_stage e r [wallet_entry r] = (out, lg, cs)"
        by (cases "quote_stage e r [wallet_entry r]") auto
      show ?thesis
      proof (cases out)
        case (Returned x)
        with q quote_stage_returned [of e r "[wallet_entry r]" x lg cs]
        have "logs x = Some lg" "1 < length lg" by auto
        then have "x \<noteq> rejected msg_slippage [wallet_entry r]"
          by (auto simp: rejected_def)
        with assms valid None q Returned show ?thesis
          by (simp add: swap_def swap_try_def Let_def)
      next
        case (Thrown err)
        with assms valid None q show ?thesis
          by (simp add: swap_def swap_try_def Let_def catch_handler_def rejected_def)
      qed
    qed
    with valid show ?thesis by (simp add: slippage_invalid_iff)
  qed
  have "fst (swap e body) = rejected msg_slippage [wallet_entry r] \<longleftrightarrow> q < 1 \<or> 2000 < q"
    if "get body ''slippageBps'' = Num (Fin q)" for q
    using read_request_slippage [OF assms(1) that] main by auto
  with main show ?thesis by blast
qed

theorem slippage_check_witness:
  "fst (swap example_env (example_body (Num (Fin 2001)) [] True)) =
     rejected msg_slippage [wallet_entry (example_request (Fin 2001) [] True)] \<and>
   fst (swap example_env (example_body (Num (Fin 2000)) [] True)) \<noteq>
     rejected msg_slippage [wallet_entry (example_request (Fin 2000) [] True)] \<and>
   fst (swap example_env (example_body (Num (Fin 1)) [] True)) \<noteq>
     rejected msg_slippage [wallet_entry (example_request (Fin 1) [] True)]"
proof -
  have valid: "\<not> amount_invalid (amountWei (example_request bps [] True))" for bps
    by (simp add: example_request_def amount_invalid_def all_digits_def is_digit_def)
  have r: "read_request example_env (example_body (Num (Fin q)) [] True) =
      Inr (example_request (Fin q) [] True)" if "q \<noteq> 0" for q
    using that by (simp add: read_example)
  from slippage_check [OF r valid, of 2001] slippage_check [OF r valid, of 2000]
    slippage_check [OF r valid, of 1]
  show ?thesis by (simp add: example_request_def)
qed

subsection \<open>C8: the exclusion list in the quote request\<close>

text \<open>
  Claim C8, as stated: a non-empty exclusion list is sent as its comma-joined string. It
  is not always: for the list \<^verbatim>\<open>[""]\<close>, which is not empty, the joined string is empty and
  the quote request carries no \<^verbatim>\<open>excludeDEXS\<close> (its value is undefined, which axios leaves
  out).
\<close>

theorem exclusions_param_counterexample:
  "get (example_body (Num (Fin 120)) [Str []] True) ''excludeDexs'' = Arr [Str []] \<and>
   snd (snd (swap example_env (example_body (Num (Fin 120)) [Str []] True))) =
     [PricesGet (pricesParams example_env (example_request (Fin 120) [Str []] True) []),
      TransactionsPost
        (txBody example_env (example_request (Fin 120) [Str []] True) example_quote)] \<and>
   get (pricesParams example_env (example_request (Fin 120) [Str []] True) [])
     ''excludeDEXS'' = Undefined"
proof -
  have "get (example_body (Num (Fin 120)) [Str []] True) ''excludeDexs'' = Arr [Str []]"
    by (simp add: example_body_def)
  moreover
  have "get (pricesParams example_env (example_request (Fin 120) [Str []] True) [])
     ''excludeDEXS'' = Undefined"
    by (simp add: pricesParams_def js_or_def)
  ultimately show ?thesis by (simp add: run_empty_name)
qed

text \<open>
  Claim C8, amended. In every quote request, \<^verbatim>\<open>excludeDEXS\<close> is the comma-joined string of
  the exclusion list when that string is not empty, and is left out (undefined) when it
  is empty: it is never the empty string, and the empty list leaves it out. For a list
  of names the joined string is the names with commas between them.
\<close>

theorem exclusions_param:
  assumes "swap e body = (res, logs1, calls1)"
    and "PricesGet p \<in> set calls1"
    and "read_request e body = Inr r"
  shows "(\<exists>csv. js_join e '','' (excludeDexs r) = Inr csv \<and>
            get p ''excludeDEXS'' = (if csv = [] then Undefined else Str csv)) \<and>
         get p ''excludeDEXS'' \<noteq> Str [] \<and>
         (excludeDexs r = [] \<longrightarrow> get p ''excludeDEXS'' = Undefined) \<and>
         (\<forall>names. excludeDexs r = map Str names \<longrightarrow>
            get p ''excludeDEXS'' =
              (if join '','' names = [] then Undefined else Str (join '','' names)))"
proof -
  from swap_call [OF assms(1,2)] assms(3) obtain csv where
    csv: "js_join e '','' (excludeDexs r) = Inr csv"
    and p: "p = pricesParams e r csv"
    by auto
  have param: "get p ''excludeDEXS'' = (if csv = [] then Undefined else Str csv)"
    by (simp add: p pricesParams_def js_or_def)
  have "csv = join '','' names" if "excludeDexs r = map Str names" for names
    using csv that by (simp add: js_join_def elem_strings_names)
  moreover have "csv = []" if "excludeDexs r = []"
    using csv that by (simp add: js_join_def)
  ultimately show ?thesis using csv param by auto
qed

theorem exclusions_param_witness:
  "get (pricesParams example_env
          (example_request (Fin 120) [Str ''Dexalot'', Str ''Uniswap''] True)
          ''Dexalot,Uniswap'') ''excludeDEXS'' = Str ''Dexalot,Uniswap''"
proof -
  have run: "swap example_env
      (example_body (Num (Fin 120)) [Str ''Dexalot'', Str ''Uniswap''] True) =
      (fst (swap example_env
         (example_body (Num (Fin 120)) [Str ''Dexalot'', Str ''Uniswap''] True)),
       fst (snd (swap example_env
         (example_body (Num (Fin 120)) [Str ''Dexalot'', Str ''Uniswap''] True))),
       snd (snd (swap example_env
         (example_body (Num (Fin 120)) [Str ''Dexalot'', Str ''Uniswap''] True))))"
    by simp
  have sent: "PricesGet (pricesParams example_env
        (example_request (Fin 120) [Str ''Dexalot'', Str ''Uniswap''] True)
        ''Dexalot,Uniswap'') \<in>
      set (snd (snd (swap example_env
        (example_body (Num (Fin 120)) [Str ''Dexalot'', Str ''Uniswap''] True))))"
    by (simp add: run_named)
  have r: "read_request example_env
      (example_body (Num (Fin 120)) [Str ''Dexalot'', Str ''Uniswap''] True) =
      Inr (example_request (Fin 120) [Str ''Dexalot'', Str ''Uniswap''] True)"
    by (simp add: read_example)
  have names: "excludeDexs (example_request (Fin 120) [Str ''Dexalot'', Str ''Uniswap''] True) =
      map Str [''Dexalot'', ''Uniswap'']"
    by (simp add: example_request_def)
  from exclusions_param [OF run sent r] names show ?thesis
    by (simp add: pricesParams_def js_or_def)
qed

subsection \<open>C9: wrapper before top level\<close>

text \<open>
  Claim C9, as stated: the top-level value is used only when the nested one is absent. It
  is also used when the nested one is there and falsy: for a quote whose wrapper holds the
  destination amount 0 and whose top level holds "5", the response reports "5".
\<close>

theorem quote_precedence_counterexample:
  "get (get zero_nested_quote ''priceRoute'') ''destAmount'' = Num (Fin 0) \<and>
   get zero_nested_quote ''destAmount'' = Str ''5'' \<and>
   axios_get_prices zero_nested_env
     (pricesParams zero_nested_env (example_request (Fin 120) [] True) []) =
     Inr zero_nested_quote \<and>
   map_of (json (fst (swap zero_nested_env (example_body (Num (Fin 120)) [] True))))
     ''destAmount'' = Some (Str ''5'')"
proof -
  have "get (get zero_nested_quote ''priceRoute'') ''destAmount'' = Num (Fin 0)"
    and "get zero_nested_quote ''destAmount'' = Str ''5''"
    by (simp_all add: zero_nested_quote_def)
  moreover
  have "axios_get_prices zero_nested_env
     (pricesParams zero_nested_env (example_request (Fin 120) [] True) []) =
     Inr zero_nested_quote"
    by (simp add: zero_nested_env_def)
  ultimately show ?thesis by (simp add: run_zero_nested)
qed

text \<open>
  Claim C9, amended. Of the quote \<open>priceRoute\<close> that the pricing service returned, the
  handler uses the value under the \<^verbatim>\<open>priceRoute\<close> wrapper whenever that value is truthy,
  and the top-level one when the nested one is absent or falsy (null, false, 0, NaN, the
  empty string): this holds for the transfer proxy in the allowance read, for the
  destination amount in a successful response, and for the payload in the build request,
  which is the wrapper when truthy and the whole quote otherwise.
\<close>

theorem quote_precedence:
  assumes "swap e body = (res, logs1, calls1)"
    and "PricesGet p \<in> set calls1"
    and "axios_get_prices e p = Inr priceRoute"
  shows "(\<forall>token owner spender. AllowanceRead token owner spender \<in> set calls1 \<longrightarrow>
            spender =
              (if truthy (get (get priceRoute ''priceRoute'') ''tokenTransferProxy'')
               then get (get priceRoute ''priceRoute'') ''tokenTransferProxy''
               else get priceRoute ''tokenTransferProxy'')) \<and>
         (\<forall>b. TransactionsPost b \<in> set calls1 \<longrightarrow>
            get b ''priceRoute'' =
              (if truthy (get priceRoute ''priceRoute'') then get priceRoute ''priceRoute''
               else priceRoute)) \<and>
         (map_of (json res) ''ok'' = Some (Boolean True) \<longrightarrow>
            (\<exists>d. js_String e
                   (if truthy (get (get priceRoute ''priceRoute'') ''destAmount'')
                    then get (get priceRoute ''priceRoute'') ''destAmount''
                    else get priceRoute ''destAmount'') = Inr d \<and>
                 map_of (json res) ''destAmount'' = Some (Str d)))"
proof -
  from swap_call [OF assms(1,2)] obtain r csv where
    r: "read_request e body = Inr r" "\<not> amount_invalid (amountWei r)"
       "\<not> slippage_invalid (slippageBps r)" "signer_check e r = None"
       "js_join e '','' (excludeDexs r) = Inr csv"
    and p: "p = pricesParams e r csv"
    by auto
  have proxy_used: "spender =
      (if truthy (get (get priceRoute ''priceRoute'') ''tokenTransferProxy'')
       then get (get priceRoute ''priceRoute'') ''tokenTransferProxy''
       else get priceRoute ''tokenTransferProxy'')"
    if "AllowanceRead token owner spender \<in> set calls1" for token owner spender
    using swap_call [OF assms(1) that] r p assms(3)
    by (auto simp: quoted_tokenTransferProxy_def js_or_def)
  have payload: "get b ''priceRoute'' =
      (if truthy (get priceRoute ''priceRoute'') then get priceRoute ''priceRoute''
       else priceRoute)"
    if "TransactionsPost b \<in> set calls1" for b
    using swap_call [OF assms(1) that] r p assms(3)
    by (auto simp: txBody_def js_or_def)
  have amount: "\<exists>d. js_String e
        (if truthy (get (get priceRoute ''priceRoute'') ''destAmount'')
         then get (get priceRoute ''priceRoute'') ''destAmount''
         else get priceRoute ''destAmount'') = Inr d \<and>
      map_of (json res) ''destAmount'' = Some (Str d)"
    if ok: "map_of (json res) ''ok'' = Some (Boolean True)"
  proof -
    obtain out where q: "quote_stage e r [wallet_entry r] = (out, logs1, calls1)"
      and res: "res = (case out of Returned x \<Rightarrow> x | Thrown err \<Rightarrow> catch_handler err)"
      using assms(1) r
      by (cases "quote_stage e r [wallet_entry r]")
        (auto simp: swap_def swap_try_def Let_def split: outcome.splits)
    from res ok obtain x where x: "out = Returned x" "res = x"
      by (cases out) (auto simp: catch_handler_def)
    from quote_stage_returned [of e r "[wallet_entry r]" x logs1 calls1] q x ok r p assms(3)
    show ?thesis by (auto simp: quoted_destAmount_def js_or_def)
  qed
  from proxy_used payload amount show ?thesis by blast
qed

theorem quote_precedence_witness:
  "map_of (json (fst (swap zero_nested_env (example_body (Num (Fin 120)) [] True))))
     ''destAmount'' = Some (Str ''5'') \<and>
   get (txBody zero_nested_env (example_request (Fin 120) [] True) zero_nested_quote)
     ''priceRoute'' = get zero_nested_quote ''priceRoute''"
proof -
  have run: "swap zero_nested_env (example_body (Num (Fin 120)) [] True) =
      (fst (swap zero_nested_env (example_body (Num (Fin 120)) [] True)),
       fst (snd (swap zero_nested_env (example_body (Num (Fin 120)) [] True))),
       snd (snd (swap zero_nested_env (example_body (Num (Fin 120)) [] True))))"
    by simp
  have sent: "PricesGet (pricesParams zero_nested_env (example_request (Fin 120) [] True) [])
      \<in> set (snd (snd (swap zero_nested_env (example_body (Num (Fin 120)) [] True))))"
    and posted: "TransactionsPost
        (txBody zero_nested_env (example_request (Fin 120) [] True) zero_nested_quote)
      \<in> set (snd (snd (swap zero_nested_env (example_body (Num (Fin 120)) [] True))))"
    by (simp_all add: run_zero_nested)
  have answer: "axios_get_prices zero_nested_env
      (pricesParams zero_nested_env (example_request (Fin 120) [] True) []) =
      Inr zero_nested_quote"
    by (simp add: zero_nested_env_def)
  have wrapper: "truthy (get zero_nested_quote ''priceRoute'')"
    by (simp add: zero_nested_quote_def)
  from quote_precedence [OF run sent answer] posted wrapper
  have "get (txBody zero_nested_env (example_request (Fin 120) [] True) zero_nested_quote)
     ''priceRoute'' = get zero_nested_quote ''priceRoute''"
    by auto
  then show ?thesis by (simp add: run_zero_nested)
qed

subsection \<open>C10: a swap that was mined, and a swap that reverted\<close>




end
